theory Spec2Isabelle
  imports Main "HOL-Library.Word" "HOL-Library.Sublist"
begin

section \<open>The Kubernetes provider: configuration resolution and catalog building\<close>

text \<open>
  A shallow embedding of the provider file of package \<open>kubernetes\<close>: \<open>initClientAndConfig\<close>,
  \<open>configFromPath\<close>, \<open>applyGlobalOptionsToConfig\<close> and \<open>GetSupportedService\<close>.
  The environment is a function from variable names to values (\<open>os.Getenv\<close> gives the
  empty string for a variable that is not set). Everything the file calls in other
  packages is a field of the record \<open>extern\<close>: a theorem stated for an arbitrary \<open>X\<close>
  holds for whatever those packages compute, and the examples are evaluated on the
  sample host \<open>host\<close>, where each field is given.
\<close>

subsection \<open>Data\<close>

text \<open>The fields of \<open>restclient.Config\<close> that the file writes, and \<open>Host\<close>, which it never touches.\<close>

record ImpersonationConfig =
  UserName :: string
  Groups :: "string list"

record TLSClientConfig =
  ServerName :: string
  CertFile :: string
  KeyFile :: string
  CAFile :: string

text \<open>
  The field \<open>TLS\<close> is the struct \<open>TLSClientConfig\<close> embedded in \<open>restclient.Config\<close>:
  the source's \<open>config.TLSClientConfig.CAFile\<close> is \<open>CAFile (TLS config)\<close>, and its
  \<open>config.ServerName\<close> is the promoted field \<open>ServerName (TLS config)\<close>. \<open>Timeout\<close> is a
  \<open>time.Duration\<close>: a 64-bit count of nanoseconds.
\<close>

record Config =
  Host :: string
  Username :: string
  Password :: string
  BearerToken :: string
  Impersonate :: ImpersonationConfig
  TLS :: TLSClientConfig
  Timeout :: "64 word"

definition Second :: "64 word" where
  "Second = 1000000000"

text \<open>
  \<open>clientcmd.ConfigOverrides\<close>, of which the file sets \<open>Context.Namespace\<close> only, and the two
  ways \<open>configFromPath\<close> builds a \<open>clientcmd.ClientConfig\<close> from the loaded credentials \<open>'c\<close>.
\<close>

record ConfigOverrides =
  Namespace :: string

datatype 'c ClientConfig =
    NewNonInteractiveClientConfig 'c string ConfigOverrides
  | NewDefaultClientConfig 'c ConfigOverrides

text \<open>
  The errors of the file are messages built with \<open>fmt.Errorf\<close> and \<open>errors.New\<close>. The
  model has one constructor for each place that builds one, named as the specification
  names the failure, and keeps the parts of the message that vary:
  \<^item> \<open>ConfigurationMissing\<close>: "error initializing config. The KUBECONFIG environment
    variable must be defined.";
  \<^item> \<open>ConfigurationInvalid path cause\<close>: "the provided credentials \<open>path\<close> could not be
    loaded: \<open>cause\<close>", built by \<open>configFromPath\<close>;
  \<^item> \<open>CredentialsRejected path cause\<close>: "the provided credentials \<open>path\<close> could not be
    used: \<open>cause\<close>";
  \<^item> \<open>InvalidOverride msg\<close>: an error of \<open>applyGlobalOptionsToConfig\<close>, whose whole
    message is \<open>msg\<close>.
  \<open>initClientAndConfig\<close> puts "error obtaining kubectl config: " before the message of
  the second and "error processing global plugin options: " before the message of the
  last; the model leaves these two constant prefixes out.
\<close>

datatype error =
    ConfigurationMissing
  | ConfigurationInvalid string string
  | CredentialsRejected string string
  | InvalidOverride string

text \<open>
  One entry of the discovery listing (\<open>metav1.APIResource\<close>; the source reads
  \<open>resource.Name\<close>, \<open>resource.Namespaced\<close>, \<open>resource.Kind\<close> and \<open>resource.Verbs\<close>) and
  one group/version of it (\<open>metav1.APIResourceList\<close>).
\<close>

record APIResource =
  resName :: string
  resNamespaced :: bool
  resKind :: string
  Verbs :: "string list"

record APIResourceList =
  GroupVersion :: string
  APIResources :: "APIResource list"

text \<open>The descriptor the catalog stores, with the four fields the source fills in.\<close>

record Kind =
  Group :: string
  Version :: string
  Name :: string
  Namespaced :: bool

subsection \<open>What the file calls in other packages\<close>

text \<open>
  \<^item> \<open>GOOS\<close>: \<open>runtime.GOOS\<close>;
  \<^item> \<open>Join\<close>: \<open>filepath.Join\<close>;
  \<^item> \<open>Load\<close>: \<open>rules.Load()\<close> for loading rules whose \<open>ExplicitPath\<close> is the argument;
  \<^item> \<open>ClientConfig\<close>: the method \<open>config.ClientConfig()\<close>;
  \<^item> \<open>Unmarshal\<close>: \<open>json.Unmarshal\<close> into a \<open>[]string\<close>;
  \<^item> \<open>ParseDuration\<close>: \<open>time.ParseDuration\<close>;
  \<^item> \<open>NewDiscoveryClientForConfig\<close>, \<open>ServerPreferredResources\<close>: the discovery client;
  \<^item> \<open>NewProviderWrapper\<close>, \<open>GetSchema\<close>: the schema provider; of the schema only the
    key set of \<open>ResourceTypes\<close> is read;
  \<^item> \<open>ParseGroupVersion\<close>: \<open>schema.ParseGroupVersion\<close>, giving group and version;
  \<^item> \<open>extractTfResourceName\<close>: the name normalisation, defined in another file of the
    package.
  A call that returns a Go \<open>error\<close> returns \<open>Inl\<close> of the error's message.
\<close>

record ('c, 'd, 'p) extern =
  GOOS :: string
  Join :: "string list \<Rightarrow> string"
  Load :: "string \<Rightarrow> string + 'c"
  ClientConfig :: "'c ClientConfig \<Rightarrow> string + Config"
  Unmarshal :: "string \<Rightarrow> string + string list"
  ParseDuration :: "string \<Rightarrow> string + 64 word"
  NewDiscoveryClientForConfig :: "Config \<Rightarrow> string + 'd"
  ServerPreferredResources :: "'d \<Rightarrow> string + APIResourceList list"
  NewProviderWrapper :: "string \<Rightarrow> bool \<Rightarrow> string + 'p"
  GetSchema :: "'p \<Rightarrow> string set"
  ParseGroupVersion :: "string \<Rightarrow> string + (string \<times> string)"
  extractTfResourceName :: "string \<Rightarrow> string"

subsection \<open>Resolving the kubeconfig location\<close>

text \<open>
  The first part of \<open>initClientAndConfig\<close>, up to the test of \<open>len(kubeconfig)\<close>. Inside
  the \<open>if runtime.GOOS == "windows"\<close> block the source writes \<open>home := ...\<close>, which
  declares a new variable of that block: the block computes \<open>home'\<close> and leaves the
  outer \<open>home\<close> as it was.
\<close>

definition kubeconfigLocation :: "('c, 'd, 'p) extern \<Rightarrow> (string \<Rightarrow> string) \<Rightarrow> string" where
  "kubeconfigLocation X Getenv =
     (let home = Getenv ''HOME'';
          home = (if GOOS X = ''windows''
                  then (let home' = Getenv ''HOMEDRIVE'' @ Getenv ''HOMEPATH'';
                            home' = (if home' = [] then Getenv ''USERPROFILE'' else home')
                        in home)
                  else home);
          kubeconfig = Join X [home, ''.kube'', ''config''];
          kubeconfigEnv = Getenv ''KUBECONFIG'';
          kubeconfig = (if length kubeconfigEnv > 0 then kubeconfigEnv else kubeconfig);
          configFile = Getenv ''KUBECTL_PLUGINS_GLOBAL_FLAG_CONFIG'';
          kubeConfigFile = Getenv ''KUBECTL_PLUGINS_GLOBAL_FLAG_KUBECONFIG'';
          kubeconfig = (if length configFile > 0 then configFile
                        else if length kubeConfigFile > 0 then kubeConfigFile
                        else kubeconfig)
      in kubeconfig)"

subsection \<open>Loading\<close>

definition configFromPath ::
  "('c, 'd, 'p) extern \<Rightarrow> (string \<Rightarrow> string) \<Rightarrow> string \<Rightarrow> error + 'c ClientConfig" where
  "configFromPath X Getenv path =
     (case Load X path of
        Inl err \<Rightarrow> Inl (ConfigurationInvalid path err)
      | Inr credentials \<Rightarrow>
          (let overrides = \<lparr>Namespace = Getenv ''KUBECTL_PLUGINS_GLOBAL_FLAG_NAMESPACE''\<rparr>;
               context = Getenv ''KUBECTL_PLUGINS_GLOBAL_FLAG_CONTEXT''
           in if length context > 0
              then Inr (NewNonInteractiveClientConfig credentials context overrides)
              else Inr (NewDefaultClientConfig credentials overrides)))"

subsection \<open>The global option overlay\<close>

text \<open>
  \<open>quoted s\<close> is \<open>%q\<close> of a string that needs no escaping; the source applies it to the
  constant \<open>--as-group\<close>.
\<close>

definition quoted :: "string \<Rightarrow> string" where
  "quoted s = [CHR 0x22] @ s @ [CHR 0x22]"

text \<open>
  The source mutates the configuration through a pointer and returns an error or nil.
  The model returns the error (\<open>None\<close> for nil) together with the configuration as
  the call leaves it, also when it fails. The function is modelled in the three parts
  its comments divide it into, each of them the statements of the source in their order.
\<close>

text \<open>The part under the comment \<open>impersonation config\<close>.\<close>

definition impersonationOptions ::
  "('c, 'd, 'p) extern \<Rightarrow> (string \<Rightarrow> string) \<Rightarrow> Config \<Rightarrow> error option \<times> Config" where
  "impersonationOptions X Getenv config =
     (let impersonateUser = Getenv ''KUBECTL_PLUGINS_GLOBAL_FLAG_AS'';
          config = (if length impersonateUser > 0
                    then config\<lparr>Impersonate := (Impersonate config)\<lparr>UserName := impersonateUser\<rparr>\<rparr>
                    else config);
          impersonateGroup = Getenv ''KUBECTL_PLUGINS_GLOBAL_FLAG_AS_GROUP''
      in if length impersonateGroup > 0
         then (case Unmarshal X impersonateGroup of
                 Inl err \<Rightarrow>
                   (Some (InvalidOverride
                      (''error parsing global option '' @ quoted ''--as-group'' @ '': '' @ err)),
                    config)
               | Inr impersonateGroupJSON \<Rightarrow>
                   (None,
                    if length impersonateGroupJSON > 0
                    then config\<lparr>Impersonate := (Impersonate config)\<lparr>Groups := impersonateGroupJSON\<rparr>\<rparr>
                    else config))
         else (None, config))"

text \<open>
  The part under the comment \<open>tls config\<close>, which ends with the reads of the cluster and
  the user override: their two branches hold a \<open>TODO\<close> comment and no statement.
\<close>

definition tlsOptions :: "(string \<Rightarrow> string) \<Rightarrow> Config \<Rightarrow> Config" where
  "tlsOptions Getenv config =
     (let caFile = Getenv ''KUBECTL_PLUGINS_GLOBAL_FLAG_CERTIFICATE_AUTHORITY'';
          config = (if length caFile > 0
                    then config\<lparr>TLS := (TLS config)\<lparr>CAFile := caFile\<rparr>\<rparr> else config);
          clientCertFile = Getenv ''KUBECTL_PLUGINS_GLOBAL_FLAG_CLIENT_CERTIFICATE'';
          config = (if length clientCertFile > 0
                    then config\<lparr>TLS := (TLS config)\<lparr>CertFile := clientCertFile\<rparr>\<rparr>
                    else config);
          clientKey = Getenv ''KUBECTL_PLUGINS_GLOBAL_FLAG_CLIENT_KEY'';
          config = (if length clientKey > 0
                    then config\<lparr>TLS := (TLS config)\<lparr>KeyFile := clientKey\<rparr>\<rparr> else config);
          cluster = Getenv ''KUBECTL_PLUGINS_GLOBAL_FLAG_CLUSTER'';
          config = (if length cluster > 0 then config else config);
          user = Getenv ''KUBECTL_PLUGINS_GLOBAL_FLAG_USER'';
          config = (if length user > 0 then config else config)
      in config)"

text \<open>The part under the comment \<open>user / misc request config\<close>.\<close>

definition requestOptions ::
  "('c, 'd, 'p) extern \<Rightarrow> (string \<Rightarrow> string) \<Rightarrow> Config \<Rightarrow> error option \<times> Config" where
  "requestOptions X Getenv config =
     (let requestTimeout = Getenv ''KUBECTL_PLUGINS_GLOBAL_FLAG_REQUEST_TIMEOUT''
      in case (if length requestTimeout > 0
               then (case ParseDuration X requestTimeout of
                       Inl err \<Rightarrow> Inl (InvalidOverride err)
                     | Inr t \<Rightarrow> Inr (config\<lparr>Timeout := t\<rparr>))
               else Inr config) of
           Inl err \<Rightarrow> (Some err, config)
         | Inr config \<Rightarrow>
            (let server = Getenv ''KUBECTL_PLUGINS_GLOBAL_FLAG_SERVER'';
                 config = (if length server > 0
                           then config\<lparr>TLS := (TLS config)\<lparr>ServerName := server\<rparr>\<rparr>
                           else config);
                 token = Getenv ''KUBECTL_PLUGINS_GLOBAL_FLAG_TOKEN'';
                 config = (if length token > 0 then config\<lparr>BearerToken := token\<rparr> else config);
                 username = Getenv ''KUBECTL_PLUGINS_GLOBAL_FLAG_USERNAME'';
                 config = (if length username > 0
                           then config\<lparr>Username := username\<rparr> else config);
                 password = Getenv ''KUBECTL_PLUGINS_GLOBAL_FLAG_PASSWORD'';
                 config = (if length password > 0
                           then config\<lparr>Password := password\<rparr> else config)
             in (None, config)))"

definition applyGlobalOptionsToConfig ::
  "('c, 'd, 'p) extern \<Rightarrow> (string \<Rightarrow> string) \<Rightarrow> Config \<Rightarrow> error option \<times> Config" where
  "applyGlobalOptionsToConfig X Getenv config =
     (case impersonationOptions X Getenv config of
        (Some err, config) \<Rightarrow> (Some err, config)
      | (None, config) \<Rightarrow> requestOptions X Getenv (tlsOptions Getenv config))"

subsection \<open>initClientAndConfig\<close>

definition initClientAndConfig ::
  "('c, 'd, 'p) extern \<Rightarrow> (string \<Rightarrow> string) \<Rightarrow> error + (Config \<times> 'c ClientConfig)" where
  "initClientAndConfig X Getenv =
     (let kubeconfig = kubeconfigLocation X Getenv
      in if length kubeconfig = 0 then Inl ConfigurationMissing
         else (case configFromPath X Getenv kubeconfig of
                 Inl err \<Rightarrow> Inl err
               | Inr config \<Rightarrow>
                  (case ClientConfig X config of
                     Inl err \<Rightarrow> Inl (CredentialsRejected kubeconfig err)
                   | Inr client \<Rightarrow>
                      (case applyGlobalOptionsToConfig X Getenv client of
                         (Some err, client') \<Rightarrow> Inl err
                       | (None, client') \<Rightarrow> Inr (client', config)))))"

subsection \<open>GetSupportedService\<close>

text \<open>
  The inner loop, over the resources of one group/version \<open>gv\<close>. \<open>types\<close> is the key set
  of \<open>resp.ResourceTypes\<close>, and \<open>sets.NewString(resource.Verbs...).Has("list")\<close> is
  membership of \<open>list\<close> in the verbs. A Go map assignment overwrites an earlier value
  of the same key.
\<close>

fun resourceLoop ::
  "('c, 'd, 'p) extern \<Rightarrow> string set \<Rightarrow> string \<times> string \<Rightarrow> APIResource list \<Rightarrow>
   (string \<rightharpoonup> Kind) \<Rightarrow> (string \<rightharpoonup> Kind)" where
  "resourceLoop X types gv [] resources = resources"
| "resourceLoop X types gv (resource # rest) resources =
     (if length (Verbs resource) = 0 then resourceLoop X types gv rest resources
      else if length (Verbs resource) > 0 \<and> ''list'' \<notin> set (Verbs resource)
        then resourceLoop X types gv rest resources
      else if extractTfResourceName X (resKind resource) \<notin> types
        then resourceLoop X types gv rest resources
      else resourceLoop X types gv rest
             (resources(resName resource \<mapsto>
                \<lparr>Group = fst gv, Version = snd gv, Name = resKind resource,
                 Namespaced = resNamespaced resource\<rparr>)))"

text \<open>The outer loop, over the group/versions of the listing.\<close>

fun listLoop ::
  "('c, 'd, 'p) extern \<Rightarrow> string set \<Rightarrow> APIResourceList list \<Rightarrow>
   (string \<rightharpoonup> Kind) \<Rightarrow> (string \<rightharpoonup> Kind)" where
  "listLoop X types [] resources = resources"
| "listLoop X types (list # rest) resources =
     (if length (APIResources list) = 0 then listLoop X types rest resources
      else (case ParseGroupVersion X (GroupVersion list) of
              Inl err \<Rightarrow> listLoop X types rest resources
            | Inr gv \<Rightarrow>
                listLoop X types rest (resourceLoop X types gv (APIResources list) resources)))"

text \<open>
  \<open>GetSupportedService\<close> returns a map and nothing else. The model returns the map and
  the lines the call wrote with \<open>log.Println\<close>. \<open>verbose\<close> is the receiver's field
  \<open>p.verbose\<close>, and \<open>lists'\<close> is the source's \<open>lists\<close>.
\<close>

definition GetSupportedService ::
  "('c, 'd, 'p) extern \<Rightarrow> (string \<Rightarrow> string) \<Rightarrow> string \<Rightarrow> (string \<rightharpoonup> Kind) \<times> string list" where
  "GetSupportedService X Getenv verbose =
     (let resources = Map.empty
      in case initClientAndConfig X Getenv of
           Inl err \<Rightarrow> (resources, [])
         | Inr (config, _) \<Rightarrow>
            (case NewDiscoveryClientForConfig X config of
               Inl err \<Rightarrow> (resources, [err])
             | Inr dc \<Rightarrow>
                (case ServerPreferredResources X dc of
                   Inl err \<Rightarrow> (resources, [err])
                 | Inr lists' \<Rightarrow>
                    (case NewProviderWrapper X ''kubernetes'' (verbose = ''true'') of
                       Inl err \<Rightarrow> (resources, [err])
                     | Inr provider \<Rightarrow>
                        (let resp = GetSchema X provider
                         in (listLoop X resp lists' resources, []))))))"

subsection \<open>The catalog, described without the loops\<close>

text \<open>
  Three notions for stating what the loops compute; the lemmas below relate them to
  \<open>listLoop\<close>. A resource is importable when it passes the three filters of the inner
  loop: its verbs include \<open>list\<close> (so they are not empty) and the schema declares a type
  under its normalised kind. \<open>kindOf gv r\<close> is the descriptor the source stores for the
  resource \<open>r\<close> of the group/version \<open>gv\<close>. \<open>entries\<close> lists, in the order of the listing,
  the key and descriptor of every importable resource of a group/version whose string
  parses. \<open>listableOnly\<close> deletes from a group/version the resources without \<open>list\<close>.
\<close>

definition importable :: "('c, 'd, 'p) extern \<Rightarrow> string set \<Rightarrow> APIResource \<Rightarrow> bool" where
  "importable X types r \<longleftrightarrow>
     ''list'' \<in> set (Verbs r) \<and> extractTfResourceName X (resKind r) \<in> types"

definition kindOf :: "string \<times> string \<Rightarrow> APIResource \<Rightarrow> Kind" where
  "kindOf gv r =
     \<lparr>Group = fst gv, Version = snd gv, Name = resKind r, Namespaced = resNamespaced r\<rparr>"

fun entries ::
  "('c, 'd, 'p) extern \<Rightarrow> string set \<Rightarrow> APIResourceList list \<Rightarrow> (string \<times> Kind) list" where
  "entries X types [] = []"
| "entries X types (l # ls) =
     (case ParseGroupVersion X (GroupVersion l) of
        Inl err \<Rightarrow> []
      | Inr gv \<Rightarrow> map (\<lambda>r. (resName r, kindOf gv r)) (filter (importable X types) (APIResources l)))
     @ entries X types ls"

definition listableOnly :: "APIResourceList \<Rightarrow> APIResourceList" where
  "listableOnly l = l\<lparr>APIResources := filter (\<lambda>r. ''list'' \<in> set (Verbs r)) (APIResources l)\<rparr>"

subsection \<open>A sample host and cluster\<close>

text \<open>
  The concrete inputs of the examples below. \<open>filepath_Join\<close> is \<open>filepath.Join\<close> of the Go
  library where the separator is \<open>/\<close> and paths have no volume name: it drops the leading
  empty elements, joins the others with the separator and cleans the result (\<open>Clean\<close>:
  empty and \<open>.\<close> elements go, \<open>..\<close> removes the element before it, a rooted path keeps
  its root, and an empty result is \<open>.\<close>); when every element is empty it gives the empty
  string.
\<close>

fun splitSep :: "string \<Rightarrow> string list" where
  "splitSep [] = [[]]"
| "splitSep (c # cs) =
     (if c = CHR ''/'' then [] # splitSep cs
      else (case splitSep cs of [] \<Rightarrow> [[c]] | w # ws \<Rightarrow> (c # w) # ws))"

fun joinSep :: "string list \<Rightarrow> string" where
  "joinSep [] = []"
| "joinSep [e] = e"
| "joinSep (e # es) = e @ ''/'' @ joinSep es"

fun cleanElems :: "bool \<Rightarrow> string list \<Rightarrow> string list \<Rightarrow> string list" where
  "cleanElems rooted [] out = rev out"
| "cleanElems rooted (e # es) out =
     (if e = [] \<or> e = ''.'' then cleanElems rooted es out
      else if e = ''..'' then
        (case out of
           [] \<Rightarrow> if rooted then cleanElems rooted es [] else cleanElems rooted es [e]
         | t # ts \<Rightarrow> if t = ''..'' then cleanElems rooted es (e # out)
                    else cleanElems rooted es ts)
      else cleanElems rooted es (e # out))"

definition Clean :: "string \<Rightarrow> string" where
  "Clean path =
     (if path = [] then ''.''
      else (let rooted = (hd path = CHR ''/'');
                out = joinSep (cleanElems rooted (splitSep path) [])
            in if rooted then CHR ''/'' # out else if out = [] then ''.'' else out))"

definition filepath_Join :: "string list \<Rightarrow> string" where
  "filepath_Join elem =
     (case dropWhile (\<lambda>e. e = []) elem of [] \<Rightarrow> [] | e # es \<Rightarrow> Clean (joinSep (e # es)))"

text \<open>
  \<open>schema_ParseGroupVersion\<close> is \<open>schema.ParseGroupVersion\<close> of the Kubernetes library: the
  empty string and \<open>/\<close> give the empty group and version, a string with no \<open>/\<close> is a
  version of the empty group, a string with one \<open>/\<close> is \<open>group/version\<close>, and a string
  with more is an error.
\<close>

definition schema_ParseGroupVersion :: "string \<Rightarrow> string + (string \<times> string)" where
  "schema_ParseGroupVersion gv =
     (if length gv = 0 \<or> gv = ''/'' then Inr ([], [])
      else if count_list gv (CHR ''/'') = 0 then Inr ([], gv)
      else if count_list gv (CHR ''/'') = 1
        then Inr (takeWhile (\<lambda>c. c \<noteq> CHR ''/'') gv, tl (dropWhile (\<lambda>c. c \<noteq> CHR ''/'') gv))
      else Inl (''unexpected GroupVersion string: '' @ gv))"

text \<open>
  The configuration the sample kubeconfig materialises to, and the sample host: Linux,
  one kubeconfig file at \<open>/home/dev/.kube/config\<close>, a cluster that serves the listing
  \<open>listing\<close>, and a schema provider that declares pods, ingresses and config maps.
  \<open>Unmarshal\<close>, \<open>ParseDuration\<close> and \<open>extractTfResourceName\<close> stand in for the real
  functions on the strings the examples use. For \<open>json.Unmarshal\<close> into a string slice:
  \<open>[]\<close> is the empty array; \<open>null\<close> is accepted and leaves no element; the array of
  \<open>"a"\<close> and \<open>null\<close> is accepted, a \<open>null\<close> element leaving the empty string; \<open>{oops\<close> is
  rejected, with the library's message. \<open>10s\<close> is ten seconds and \<open>notaduration\<close> is no duration, with
  the library's message for it; \<open>Pod\<close>, \<open>Ingress\<close> and \<open>ConfigMap\<close> normalise to the
  provider's \<open>kubernetes_pod\<close>, \<open>kubernetes_ingress\<close> and \<open>kubernetes_config_map\<close>.
\<close>

definition devConfig :: Config where
  "devConfig =
     \<lparr>Host = ''https://10.0.0.1:6443'', Username = [], Password = [], BearerToken = ''t0k3n'',
      Impersonate = \<lparr>UserName = [], Groups = [''developers'']\<rparr>,
      TLS = \<lparr>ServerName = [], CertFile = [], KeyFile = [], CAFile = ''/etc/ssl/ca.crt''\<rparr>,
      Timeout = 0\<rparr>"

definition host :: "APIResourceList list \<Rightarrow> (string, Config, bool) extern" where
  "host listing =
     \<lparr>GOOS = ''linux'',
      Join = filepath_Join,
      Load = (\<lambda>path. if path = ''/home/dev/.kube/config'' then Inr path
                     else Inl ''no such file or directory''),
      ClientConfig = (\<lambda>config. Inr devConfig),
      Unmarshal = (\<lambda>data. if data = ''[]'' \<or> data = ''null'' then Inr []
                         else if data = ''['' @ quoted ''a'' @ '',null]'' then Inr [''a'', []]
                         else Inl ''invalid character 'o' looking for beginning of object key string''),
      ParseDuration = (\<lambda>s. if s = ''10s'' then Inr (10 * Second)
                            else Inl (''time: invalid duration '' @ quoted s)),
      NewDiscoveryClientForConfig = (\<lambda>config. Inr config),
      ServerPreferredResources = (\<lambda>dc. Inr listing),
      NewProviderWrapper = (\<lambda>name verbose. Inr verbose),
      GetSchema = (\<lambda>provider. {''kubernetes_pod'', ''kubernetes_ingress'', ''kubernetes_config_map''}),
      ParseGroupVersion = schema_ParseGroupVersion,
      extractTfResourceName =
        (\<lambda>kind. if kind = ''Pod'' then ''kubernetes_pod''
                else if kind = ''Ingress'' then ''kubernetes_ingress''
                else if kind = ''ConfigMap'' then ''kubernetes_config_map''
                else ''kubernetes_'' @ kind)\<rparr>"

text \<open>
  Sample group/versions of a listing: the core group with pods and config maps (both
  importable), bindings (which cannot be listed), a resource with no verbs and events
  (which the sample schema provider does not declare); ingresses in two groups, under
  the same plural name; and a group/version whose string does not parse.
\<close>

definition coreV1 :: APIResourceList where
  "coreV1 =
     \<lparr>GroupVersion = ''v1'',
      APIResources =
        [\<lparr>resName = ''pods'', resNamespaced = True, resKind = ''Pod'',
          Verbs = [''create'', ''delete'', ''get'', ''list'', ''watch'']\<rparr>,
         \<lparr>resName = ''bindings'', resNamespaced = True, resKind = ''Binding'',
          Verbs = [''create'']\<rparr>,
         \<lparr>resName = ''configmaps'', resNamespaced = True, resKind = ''ConfigMap'',
          Verbs = [''get'', ''list'']\<rparr>,
         \<lparr>resName = ''podtemplates'', resNamespaced = True, resKind = ''Pod'', Verbs = []\<rparr>,
         \<lparr>resName = ''events'', resNamespaced = True, resKind = ''Event'',
          Verbs = [''get'', ''list'', ''watch'']\<rparr>]\<rparr>"

definition extensionsV1beta1 :: APIResourceList where
  "extensionsV1beta1 =
     \<lparr>GroupVersion = ''extensions/v1beta1'',
      APIResources =
        [\<lparr>resName = ''ingresses'', resNamespaced = True, resKind = ''Ingress'',
          Verbs = [''get'', ''list'']\<rparr>]\<rparr>"

definition networkingV1beta1 :: APIResourceList where
  "networkingV1beta1 =
     \<lparr>GroupVersion = ''networking.k8s.io/v1beta1'',
      APIResources =
        [\<lparr>resName = ''ingresses'', resNamespaced = True, resKind = ''Ingress'',
          Verbs = [''get'', ''list'']\<rparr>]\<rparr>"

definition malformedGroupVersion :: APIResourceList where
  "malformedGroupVersion =
     \<lparr>GroupVersion = ''apps/v1/beta'',
      APIResources =
        [\<lparr>resName = ''pods'', resNamespaced = True, resKind = ''Pod'',
          Verbs = [''get'', ''list'']\<rparr>]\<rparr>"

text \<open>
  An environment given by the variables that are set, and the environment of the
  developer whose home holds the sample kubeconfig.
\<close>

definition environ :: "(string \<times> string) list \<Rightarrow> string \<Rightarrow> string" where
  "environ vars name = (case map_of vars name of None \<Rightarrow> [] | Some v \<Rightarrow> v)"

definition devEnv :: "string \<Rightarrow> string" where
  "devEnv = environ [(''HOME'', ''/home/dev'')]"

section \<open>What the loops compute\<close>

text \<open>
  Each loop adds its entries to the map it is given, a later entry replacing an earlier
  one of the same key.
\<close>

lemma resourceLoop_entries:
  "resourceLoop X types gv rs acc =
     acc ++ map_of (rev (map (\<lambda>r. (resName r, kindOf gv r)) (filter (importable X types) rs)))"
proof (induction rs arbitrary: acc)
  case Nil
  show ?case by simp
next
  case (Cons r rs)
  show ?case
  proof (cases "importable X types r")
    case True
    then have "resourceLoop X types gv (r # rs) acc =
        resourceLoop X types gv rs (acc(resName r \<mapsto> kindOf gv r))"
      by (auto simp: importable_def kindOf_def)
    also have "\<dots> = acc(resName r \<mapsto> kindOf gv r) ++
        map_of (rev (map (\<lambda>r. (resName r, kindOf gv r)) (filter (importable X types) rs)))"
      by (rule Cons.IH)
    finally show ?thesis using True by (simp add: map_add_assoc [symmetric])
  next
    case False
    then have "resourceLoop X types gv (r # rs) acc = resourceLoop X types gv rs acc"
      by (auto simp: importable_def)
    then show ?thesis using False by (simp add: Cons.IH)
  qed
qed

lemma listLoop_entries:
  "listLoop X types ls acc = acc ++ map_of (rev (entries X types ls))"
proof (induction ls arbitrary: acc)
  case Nil
  show ?case by simp
next
  case (Cons l ls)
  show ?case
  proof (cases "ParseGroupVersion X (GroupVersion l)")
    case (Inl e)
    then show ?thesis by (simp add: Cons.IH)
  next
    case (Inr gv)
    show ?thesis
    proof (cases "APIResources l = []")
      case True
      then show ?thesis using Inr by (simp add: Cons.IH)
    next
      case False
      then show ?thesis using Inr
        by (simp add: Cons.IH resourceLoop_entries)
    qed
  qed
qed

lemma set_entries:
  "set (entries X types ls) =
     (\<Union>l\<in>set ls. case ParseGroupVersion X (GroupVersion l) of
        Inl err \<Rightarrow> {}
      | Inr gv \<Rightarrow> (\<lambda>r. (resName r, kindOf gv r)) ` {r \<in> set (APIResources l). importable X types r})"
  by (induction ls) (auto split: sum.splits)

lemma in_entries:
  "(n, k) \<in> set (entries X types ls) \<longleftrightarrow>
     (\<exists>l\<in>set ls. \<exists>gv. ParseGroupVersion X (GroupVersion l) = Inr gv \<and>
        (\<exists>r\<in>set (APIResources l). importable X types r \<and> n = resName r \<and> k = kindOf gv r))"
  unfolding set_entries by (fastforce split: sum.splits)

lemma entries_listableOnly:
  "entries X types (map listableOnly ls) = entries X types ls"
proof (induction ls)
  case Nil
  show ?case by simp
next
  case (Cons l ls)
  have "filter (importable X types) (filter (\<lambda>r. ''list'' \<in> set (Verbs r)) (APIResources l)) =
        filter (importable X types) (APIResources l)"
    by (auto simp: importable_def intro: filter_cong)
  then show ?case using Cons.IH by (simp add: listableOnly_def split: sum.splits)
qed

section \<open>The sample host, evaluated\<close>

lemma host_fields:
  "GOOS (host L) = ''linux''"
  "Join (host L) = filepath_Join"
  "Load (host L) = (\<lambda>path. if path = ''/home/dev/.kube/config'' then Inr path
                     else Inl ''no such file or directory'')"
  "ClientConfig (host L) = (\<lambda>config. Inr devConfig)"
  "NewDiscoveryClientForConfig (host L) = (\<lambda>config. Inr config)"
  "ServerPreferredResources (host L) = (\<lambda>dc. Inr L)"
  "NewProviderWrapper (host L) = (\<lambda>name verbose. Inr verbose)"
  "GetSchema (host L) = (\<lambda>provider. {''kubernetes_pod'', ''kubernetes_ingress'', ''kubernetes_config_map''})"
  "ParseGroupVersion (host L) = schema_ParseGroupVersion"
  "Unmarshal (host L) =
     (\<lambda>data. if data = ''[]'' \<or> data = ''null'' then Inr []
             else if data = ''['' @ quoted ''a'' @ '',null]'' then Inr [''a'', []]
             else Inl ''invalid character 'o' looking for beginning of object key string'')"
  "ParseDuration (host L) =
     (\<lambda>s. if s = ''10s'' then Inr (10 * Second) else Inl (''time: invalid duration '' @ quoted s))"
  "extractTfResourceName (host L) =
     (\<lambda>kind. if kind = ''Pod'' then ''kubernetes_pod''
             else if kind = ''Ingress'' then ''kubernetes_ingress''
             else if kind = ''ConfigMap'' then ''kubernetes_config_map''
             else ''kubernetes_'' @ kind)"
  by (simp_all add: host_def)

lemma home_default: "filepath_Join [''/home/dev'', ''.kube'', ''config''] = ''/home/dev/.kube/config''"
  by (simp add: filepath_Join_def Clean_def)

lemma no_home_default: "filepath_Join [[], ''.kube'', ''config''] = ''.kube/config''"
  by (simp add: filepath_Join_def Clean_def)

section \<open>The kubeconfig location\<close>

lemma kubeconfigLocation_chain:
  "kubeconfigLocation X Getenv =
     (if Getenv ''KUBECTL_PLUGINS_GLOBAL_FLAG_CONFIG'' \<noteq> []
        then Getenv ''KUBECTL_PLUGINS_GLOBAL_FLAG_CONFIG''
      else if Getenv ''KUBECTL_PLUGINS_GLOBAL_FLAG_KUBECONFIG'' \<noteq> []
        then Getenv ''KUBECTL_PLUGINS_GLOBAL_FLAG_KUBECONFIG''
      else if Getenv ''KUBECONFIG'' \<noteq> [] then Getenv ''KUBECONFIG''
      else Join X [Getenv ''HOME'', ''.kube'', ''config''])"
  by (simp add: kubeconfigLocation_def Let_def)

lemma initClientAndConfig_load_fails:
  "kubeconfigLocation X Getenv \<noteq> [] \<Longrightarrow> Load X (kubeconfigLocation X Getenv) = Inl cause \<Longrightarrow>
   initClientAndConfig X Getenv = Inl (ConfigurationInvalid (kubeconfigLocation X Getenv) cause)"
  by (simp add: initClientAndConfig_def configFromPath_def)

text \<open>
  Claim C1. The path \<open>initClientAndConfig\<close> resolves is the source of highest precedence
  that is present (its variable is not empty): the explicit configuration flag, then the
  kubeconfig flag, then \<open>KUBECONFIG\<close>, then the default, which is the join of \<open>HOME\<close>,
  \<open>.kube\<close> and \<open>config\<close> and is used when the other three are absent. In particular the
  explicit flag wins when all four are supplied. The resolved path is the one that is
  loaded: when loading it fails, the error carries it.
\<close>

theorem kubeconfig_precedence:
  "(let explicit = Getenv ''KUBECTL_PLUGINS_GLOBAL_FLAG_CONFIG'';
        flag = Getenv ''KUBECTL_PLUGINS_GLOBAL_FLAG_KUBECONFIG'';
        var = Getenv ''KUBECONFIG'';
        dflt = Join X [Getenv ''HOME'', ''.kube'', ''config''];
        path = kubeconfigLocation X Getenv
    in (explicit \<noteq> [] \<longrightarrow> path = explicit)
     \<and> (explicit = [] \<and> flag \<noteq> [] \<longrightarrow> path = flag)
     \<and> (explicit = [] \<and> flag = [] \<and> var \<noteq> [] \<longrightarrow> path = var)
     \<and> (explicit = [] \<and> flag = [] \<and> var = [] \<longrightarrow> path = dflt)
     \<and> (path \<noteq> [] \<longrightarrow> (\<forall>cause. Load X path = Inl cause \<longrightarrow>
            initClientAndConfig X Getenv = Inl (ConfigurationInvalid path cause))))"
  unfolding Let_def using initClientAndConfig_load_fails [of X Getenv]
  by (simp add: kubeconfigLocation_chain)

theorem kubeconfig_precedence_witness:
  "kubeconfigLocation (host [])
     (environ [(''KUBECTL_PLUGINS_GLOBAL_FLAG_CONFIG'', ''/srv/explicit.conf''),
               (''KUBECTL_PLUGINS_GLOBAL_FLAG_KUBECONFIG'', ''/srv/flag.conf''),
               (''KUBECONFIG'', ''/srv/env.conf''), (''HOME'', ''/home/dev'')]) = ''/srv/explicit.conf''
   \<and> kubeconfigLocation (host [])
     (environ [(''KUBECTL_PLUGINS_GLOBAL_FLAG_KUBECONFIG'', ''/srv/flag.conf''),
               (''KUBECONFIG'', ''/srv/env.conf''), (''HOME'', ''/home/dev'')]) = ''/srv/flag.conf''
   \<and> kubeconfigLocation (host [])
     (environ [(''KUBECONFIG'', ''/srv/env.conf''), (''HOME'', ''/home/dev'')]) = ''/srv/env.conf''
   \<and> kubeconfigLocation (host []) (environ [(''HOME'', ''/home/dev'')]) = ''/home/dev/.kube/config''
   \<and> initClientAndConfig (host [])
     (environ [(''KUBECTL_PLUGINS_GLOBAL_FLAG_CONFIG'', ''/srv/explicit.conf''),
               (''KUBECTL_PLUGINS_GLOBAL_FLAG_KUBECONFIG'', ''/srv/flag.conf''),
               (''KUBECONFIG'', ''/srv/env.conf''), (''HOME'', ''/home/dev'')]) =
       Inl (ConfigurationInvalid ''/srv/explicit.conf'' ''no such file or directory'')"
  using
    kubeconfig_precedence [of
      "environ [(''KUBECTL_PLUGINS_GLOBAL_FLAG_CONFIG'', ''/srv/explicit.conf''),
               (''KUBECTL_PLUGINS_GLOBAL_FLAG_KUBECONFIG'', ''/srv/flag.conf''),
               (''KUBECONFIG'', ''/srv/env.conf''), (''HOME'', ''/home/dev'')]" "host []"]
    kubeconfig_precedence [of
      "environ [(''KUBECTL_PLUGINS_GLOBAL_FLAG_KUBECONFIG'', ''/srv/flag.conf''),
               (''KUBECONFIG'', ''/srv/env.conf''), (''HOME'', ''/home/dev'')]" "host []"]
    kubeconfig_precedence [of
      "environ [(''KUBECONFIG'', ''/srv/env.conf''), (''HOME'', ''/home/dev'')]" "host []"]
    kubeconfig_precedence [of "environ [(''HOME'', ''/home/dev'')]" "host []"]
  by (simp add: Let_def environ_def host_fields home_default)

text \<open>
  Claim C8. On Windows the home directory of the default location should come from
  \<open>HOMEDRIVE\<close> and \<open>HOMEPATH\<close>, or from \<open>USERPROFILE\<close>. In the source the block that
  computes it assigns a variable of its own, so the default is joined from \<open>HOME\<close> on
  Windows too: with no flag and no \<open>KUBECONFIG\<close>, the location on Windows is the join
  of \<open>HOME\<close>, \<open>.kube\<close> and \<open>config\<close>, whatever the three Windows variables hold.
\<close>

theorem windows_home_not_used:
  "kubeconfigLocation (X\<lparr>GOOS := ''windows''\<rparr>)
     (Getenv(''KUBECTL_PLUGINS_GLOBAL_FLAG_CONFIG'' := [],
             ''KUBECTL_PLUGINS_GLOBAL_FLAG_KUBECONFIG'' := [], ''KUBECONFIG'' := [])) =
   Join X [Getenv ''HOME'', ''.kube'', ''config'']"
  by (simp add: kubeconfigLocation_def Let_def)

section \<open>The global option overlay\<close>

lemma impersonationOptions_cluster_user:
  "impersonationOptions X (Getenv(''KUBECTL_PLUGINS_GLOBAL_FLAG_CLUSTER'' := c,
       ''KUBECTL_PLUGINS_GLOBAL_FLAG_USER'' := u)) config = impersonationOptions X Getenv config"
  by (simp add: impersonationOptions_def)

lemma tlsOptions_cluster_user:
  "tlsOptions (Getenv(''KUBECTL_PLUGINS_GLOBAL_FLAG_CLUSTER'' := c,
       ''KUBECTL_PLUGINS_GLOBAL_FLAG_USER'' := u)) config = tlsOptions Getenv config"
  by (simp add: tlsOptions_def Let_def)

lemma requestOptions_cluster_user:
  "requestOptions X (Getenv(''KUBECTL_PLUGINS_GLOBAL_FLAG_CLUSTER'' := c,
       ''KUBECTL_PLUGINS_GLOBAL_FLAG_USER'' := u)) config = requestOptions X Getenv config"
  by (simp add: requestOptions_def Let_def split: sum.splits)

lemma applyGlobalOptionsToConfig_cluster_user:
  "applyGlobalOptionsToConfig X (Getenv(''KUBECTL_PLUGINS_GLOBAL_FLAG_CLUSTER'' := c,
       ''KUBECTL_PLUGINS_GLOBAL_FLAG_USER'' := u)) config = applyGlobalOptionsToConfig X Getenv config"
  by (simp only: applyGlobalOptionsToConfig_def impersonationOptions_cluster_user
      tlsOptions_cluster_user requestOptions_cluster_user)

text \<open>
  Claim C10. The cluster and the user override are read and have no effect: whatever
  the two variables hold, the overlay returns the same error and the same configuration
  as when both are empty.
\<close>

theorem cluster_and_user_overrides_have_no_effect:
  "applyGlobalOptionsToConfig X
     (Getenv(''KUBECTL_PLUGINS_GLOBAL_FLAG_CLUSTER'' := cluster,
             ''KUBECTL_PLUGINS_GLOBAL_FLAG_USER'' := user)) config =
   applyGlobalOptionsToConfig X
     (Getenv(''KUBECTL_PLUGINS_GLOBAL_FLAG_CLUSTER'' := [],
             ''KUBECTL_PLUGINS_GLOBAL_FLAG_USER'' := [])) config"
  by (simp only: applyGlobalOptionsToConfig_cluster_user)

lemma Groups_tlsOptions:
  "Groups (Impersonate (tlsOptions Getenv config)) = Groups (Impersonate config)"
  by (simp add: tlsOptions_def Let_def)

lemma Groups_requestOptions:
  "Groups (Impersonate (snd (requestOptions X Getenv config))) = Groups (Impersonate config)"
  by (simp add: requestOptions_def Let_def split: sum.splits)

lemma requestOptions_ok:
  "fst (requestOptions X Getenv config) = None \<longleftrightarrow>
     Getenv ''KUBECTL_PLUGINS_GLOBAL_FLAG_REQUEST_TIMEOUT'' = [] \<or>
     (\<exists>t. ParseDuration X (Getenv ''KUBECTL_PLUGINS_GLOBAL_FLAG_REQUEST_TIMEOUT'') = Inr t)"
  by (simp add: requestOptions_def Let_def split: sum.splits)

lemma impersonationOptions_malformed:
  assumes "Getenv ''KUBECTL_PLUGINS_GLOBAL_FLAG_AS_GROUP'' \<noteq> []"
    and "Unmarshal X (Getenv ''KUBECTL_PLUGINS_GLOBAL_FLAG_AS_GROUP'') = Inl cause"
  shows "\<exists>config'. impersonationOptions X Getenv config =
           (Some (InvalidOverride
              (''error parsing global option '' @ quoted ''--as-group'' @ '': '' @ cause)), config')
         \<and> Groups (Impersonate config') = Groups (Impersonate config)"
  using assms by (simp add: impersonationOptions_def Let_def)

lemma impersonationOptions_empty_array:
  assumes "Unmarshal X (Getenv ''KUBECTL_PLUGINS_GLOBAL_FLAG_AS_GROUP'') = Inr []"
  shows "impersonationOptions X Getenv config =
           impersonationOptions X (Getenv(''KUBECTL_PLUGINS_GLOBAL_FLAG_AS_GROUP'' := [])) config"
  using assms by (simp add: impersonationOptions_def Let_def)

lemma impersonationOptions_absent:
  "\<exists>config'. impersonationOptions X (Getenv(''KUBECTL_PLUGINS_GLOBAL_FLAG_AS_GROUP'' := [])) config =
           (None, config')
         \<and> Groups (Impersonate config') = Groups (Impersonate config)"
  by (simp add: impersonationOptions_def Let_def)

lemma tlsOptions_as_group:
  "tlsOptions (Getenv(''KUBECTL_PLUGINS_GLOBAL_FLAG_AS_GROUP'' := v)) config = tlsOptions Getenv config"
  by (simp add: tlsOptions_def Let_def)

lemma requestOptions_as_group:
  "requestOptions X (Getenv(''KUBECTL_PLUGINS_GLOBAL_FLAG_AS_GROUP'' := v)) config =
   requestOptions X Getenv config"
  by (simp add: requestOptions_def Let_def split: sum.splits)

lemma names_as_group:
  "sublist ''--as-group'' (''error parsing global option '' @ quoted ''--as-group'' @ '': '' @ cause)"
proof -
  have "''error parsing global option '' @ quoted ''--as-group'' @ '': '' @ cause =
        (''error parsing global option '' @ [CHR 0x22]) @ ''--as-group'' @ ([CHR 0x22] @ '': '' @ cause)"
    by (simp add: quoted_def)
  then show ?thesis by (simp only: sublist_appendI)
qed

lemma impersonationOptions_accepted:
  assumes "Getenv ''KUBECTL_PLUGINS_GLOBAL_FLAG_AS_GROUP'' \<noteq> []"
    and "Unmarshal X (Getenv ''KUBECTL_PLUGINS_GLOBAL_FLAG_AS_GROUP'') = Inr groups"
    and "groups \<noteq> []"
  shows "\<exists>config'. impersonationOptions X Getenv config = (None, config')
         \<and> Groups (Impersonate config') = groups"
  using assms by (simp add: impersonationOptions_def Let_def)

lemma host_null_group:
  "applyGlobalOptionsToConfig (host [])
     (environ [(''KUBECTL_PLUGINS_GLOBAL_FLAG_AS_GROUP'', ''null'')]) devConfig = (None, devConfig)"
  by (simp add: applyGlobalOptionsToConfig_def impersonationOptions_def tlsOptions_def
      requestOptions_def environ_def host_fields)

lemma host_null_element:
  "applyGlobalOptionsToConfig (host [])
     (environ [(''KUBECTL_PLUGINS_GLOBAL_FLAG_AS_GROUP'', ''['' @ quoted ''a'' @ '',null]'')])
     devConfig =
   (None, devConfig\<lparr>Impersonate := \<lparr>UserName = [], Groups = [''a'', []]\<rparr>\<rparr>)"
  by (simp add: applyGlobalOptionsToConfig_def impersonationOptions_def tlsOptions_def
      requestOptions_def environ_def host_fields quoted_def devConfig_def)

text \<open>
  Claim C6, as stated, fails on values that are not JSON arrays of strings and that
  \<open>json.Unmarshal\<close> accepts all the same. For \<open>null\<close> the overlay returns no error and
  leaves the configuration as it was. For the array of \<open>"a"\<close> and \<open>null\<close> it returns no
  error and replaces the group list of the sample configuration, \<open>developers\<close>, by
  \<open>a\<close> and the empty string.
\<close>

theorem as_group_claim_counterexample:
  "environ [(''KUBECTL_PLUGINS_GLOBAL_FLAG_AS_GROUP'', ''null'')]
     ''KUBECTL_PLUGINS_GLOBAL_FLAG_AS_GROUP'' = ''null''
   \<and> applyGlobalOptionsToConfig (host [])
       (environ [(''KUBECTL_PLUGINS_GLOBAL_FLAG_AS_GROUP'', ''null'')]) devConfig =
     (None, devConfig)
   \<and> applyGlobalOptionsToConfig (host [])
       (environ [(''KUBECTL_PLUGINS_GLOBAL_FLAG_AS_GROUP'', ''['' @ quoted ''a'' @ '',null]'')])
       devConfig =
     (None, devConfig\<lparr>Impersonate := \<lparr>UserName = [], Groups = [''a'', []]\<rparr>\<rparr>)
   \<and> Groups (Impersonate devConfig) = [''developers'']"
  by (simp only: host_null_group host_null_element simp_thms)
     (simp add: environ_def devConfig_def)

text \<open>
  Claim C6, amended. When the impersonation group variable is set and \<open>json.Unmarshal\<close>
  into a string slice rejects its value, the overlay fails with an \<open>InvalidOverride\<close>
  error whose message names the option \<open>--as-group\<close>, and the group list of the
  configuration is as it was. When the value is accepted with no element (the empty
  array, and \<open>null\<close> too), the overlay does what it does when the variable is absent: the
  group list is as it was, and no error comes from this override (the overlay fails only
  if the request timeout is set and does not parse). When the value is accepted with
  elements, they replace the group list, and again no error comes from this override.
\<close>

theorem as_group_override:
  "(Getenv ''KUBECTL_PLUGINS_GLOBAL_FLAG_AS_GROUP'' \<noteq> [] \<longrightarrow>
    Unmarshal X (Getenv ''KUBECTL_PLUGINS_GLOBAL_FLAG_AS_GROUP'') = Inl cause \<longrightarrow>
      fst (applyGlobalOptionsToConfig X Getenv config) =
        Some (InvalidOverride
          (''error parsing global option '' @ quoted ''--as-group'' @ '': '' @ cause))
      \<and> sublist ''--as-group''
          (''error parsing global option '' @ quoted ''--as-group'' @ '': '' @ cause)
      \<and> Groups (Impersonate (snd (applyGlobalOptionsToConfig X Getenv config))) =
          Groups (Impersonate config))
   \<and> (Unmarshal X (Getenv ''KUBECTL_PLUGINS_GLOBAL_FLAG_AS_GROUP'') = Inr [] \<longrightarrow>
      applyGlobalOptionsToConfig X Getenv config =
        applyGlobalOptionsToConfig X (Getenv(''KUBECTL_PLUGINS_GLOBAL_FLAG_AS_GROUP'' := [])) config
      \<and> Groups (Impersonate (snd (applyGlobalOptionsToConfig X Getenv config))) =
          Groups (Impersonate config)
      \<and> (fst (applyGlobalOptionsToConfig X Getenv config) = None \<longleftrightarrow>
           Getenv ''KUBECTL_PLUGINS_GLOBAL_FLAG_REQUEST_TIMEOUT'' = [] \<or>
           (\<exists>t. ParseDuration X (Getenv ''KUBECTL_PLUGINS_GLOBAL_FLAG_REQUEST_TIMEOUT'') = Inr t)))
   \<and> (Getenv ''KUBECTL_PLUGINS_GLOBAL_FLAG_AS_GROUP'' \<noteq> [] \<longrightarrow>
      Unmarshal X (Getenv ''KUBECTL_PLUGINS_GLOBAL_FLAG_AS_GROUP'') = Inr groups \<longrightarrow>
      groups \<noteq> [] \<longrightarrow>
        Groups (Impersonate (snd (applyGlobalOptionsToConfig X Getenv config))) = groups
      \<and> (fst (applyGlobalOptionsToConfig X Getenv config) = None \<longleftrightarrow>
           Getenv ''KUBECTL_PLUGINS_GLOBAL_FLAG_REQUEST_TIMEOUT'' = [] \<or>
           (\<exists>t. ParseDuration X (Getenv ''KUBECTL_PLUGINS_GLOBAL_FLAG_REQUEST_TIMEOUT'') = Inr t)))"
proof (intro conjI impI)
  assume set: "Getenv ''KUBECTL_PLUGINS_GLOBAL_FLAG_AS_GROUP'' \<noteq> []"
    and bad: "Unmarshal X (Getenv ''KUBECTL_PLUGINS_GLOBAL_FLAG_AS_GROUP'') = Inl cause"
  obtain config' where r: "impersonationOptions X Getenv config =
      (Some (InvalidOverride
         (''error parsing global option '' @ quoted ''--as-group'' @ '': '' @ cause)), config')"
    and g: "Groups (Impersonate config') = Groups (Impersonate config)"
    using impersonationOptions_malformed [of Getenv X cause config] set bad by blast
  show "fst (applyGlobalOptionsToConfig X Getenv config) =
      Some (InvalidOverride
        (''error parsing global option '' @ quoted ''--as-group'' @ '': '' @ cause))"
    by (simp add: applyGlobalOptionsToConfig_def r)
  show "Groups (Impersonate (snd (applyGlobalOptionsToConfig X Getenv config))) =
      Groups (Impersonate config)"
    by (simp add: applyGlobalOptionsToConfig_def r g)
  show "sublist ''--as-group''
      (''error parsing global option '' @ quoted ''--as-group'' @ '': '' @ cause)"
    by (rule names_as_group)
next
  assume empty: "Unmarshal X (Getenv ''KUBECTL_PLUGINS_GLOBAL_FLAG_AS_GROUP'') = Inr []"
  let ?E = "Getenv(''KUBECTL_PLUGINS_GLOBAL_FLAG_AS_GROUP'' := [])"
  show same: "applyGlobalOptionsToConfig X Getenv config = applyGlobalOptionsToConfig X ?E config"
    by (simp only: applyGlobalOptionsToConfig_def impersonationOptions_empty_array [of X Getenv config, OF empty]
        tlsOptions_as_group requestOptions_as_group)
  obtain config' where r: "impersonationOptions X ?E config = (None, config')"
    and g: "Groups (Impersonate config') = Groups (Impersonate config)"
    using impersonationOptions_absent [of X Getenv config] by blast
  have run: "applyGlobalOptionsToConfig X Getenv config =
      requestOptions X Getenv (tlsOptions Getenv config')"
    unfolding same by (simp add: applyGlobalOptionsToConfig_def r tlsOptions_as_group
        requestOptions_as_group)
  show "Groups (Impersonate (snd (applyGlobalOptionsToConfig X Getenv config))) =
      Groups (Impersonate config)"
    by (simp add: run Groups_requestOptions Groups_tlsOptions g)
  show "fst (applyGlobalOptionsToConfig X Getenv config) = None \<longleftrightarrow>
      Getenv ''KUBECTL_PLUGINS_GLOBAL_FLAG_REQUEST_TIMEOUT'' = [] \<or>
      (\<exists>t. ParseDuration X (Getenv ''KUBECTL_PLUGINS_GLOBAL_FLAG_REQUEST_TIMEOUT'') = Inr t)"
    by (simp only: run requestOptions_ok)
next
  assume set: "Getenv ''KUBECTL_PLUGINS_GLOBAL_FLAG_AS_GROUP'' \<noteq> []"
    and accepted: "Unmarshal X (Getenv ''KUBECTL_PLUGINS_GLOBAL_FLAG_AS_GROUP'') = Inr groups"
    and some: "groups \<noteq> []"
  obtain config' where r: "impersonationOptions X Getenv config = (None, config')"
    and g: "Groups (Impersonate config') = groups"
    using impersonationOptions_accepted [of Getenv X groups config] set accepted some by blast
  have run: "applyGlobalOptionsToConfig X Getenv config =
      requestOptions X Getenv (tlsOptions Getenv config')"
    by (simp add: applyGlobalOptionsToConfig_def r)
  show "Groups (Impersonate (snd (applyGlobalOptionsToConfig X Getenv config))) = groups"
    by (simp add: run Groups_requestOptions Groups_tlsOptions g)
  show "fst (applyGlobalOptionsToConfig X Getenv config) = None \<longleftrightarrow>
      Getenv ''KUBECTL_PLUGINS_GLOBAL_FLAG_REQUEST_TIMEOUT'' = [] \<or>
      (\<exists>t. ParseDuration X (Getenv ''KUBECTL_PLUGINS_GLOBAL_FLAG_REQUEST_TIMEOUT'') = Inr t)"
    by (simp only: run requestOptions_ok)
qed


theorem as_group_override_witness:
  "fst (applyGlobalOptionsToConfig (host [])
          (environ [(''KUBECTL_PLUGINS_GLOBAL_FLAG_AS'', ''admin''),
                    (''KUBECTL_PLUGINS_GLOBAL_FLAG_AS_GROUP'', ''{oops'')]) devConfig) =
     Some (InvalidOverride
       (''error parsing global option '' @ quoted ''--as-group'' @
        '': invalid character 'o' looking for beginning of object key string''))
   \<and> Groups (Impersonate (snd (applyGlobalOptionsToConfig (host [])
          (environ [(''KUBECTL_PLUGINS_GLOBAL_FLAG_AS'', ''admin''),
                    (''KUBECTL_PLUGINS_GLOBAL_FLAG_AS_GROUP'', ''{oops'')]) devConfig))) =
     [''developers'']
   \<and> Groups (Impersonate (snd (applyGlobalOptionsToConfig (host [])
          (environ [(''KUBECTL_PLUGINS_GLOBAL_FLAG_AS_GROUP'', ''[]'')]) devConfig))) =
     [''developers'']
   \<and> fst (applyGlobalOptionsToConfig (host [])
          (environ [(''KUBECTL_PLUGINS_GLOBAL_FLAG_AS_GROUP'', ''[]'')]) devConfig) = None
   \<and> Groups (Impersonate (snd (applyGlobalOptionsToConfig (host [])
          (environ [(''KUBECTL_PLUGINS_GLOBAL_FLAG_AS_GROUP'', ''['' @ quoted ''a'' @ '',null]'')])
          devConfig))) =
     [''a'', []]
   \<and> fst (applyGlobalOptionsToConfig (host [])
          (environ [(''KUBECTL_PLUGINS_GLOBAL_FLAG_AS_GROUP'', ''['' @ quoted ''a'' @ '',null]'')])
          devConfig) = None"
proof -
  let ?bad = "environ [(''KUBECTL_PLUGINS_GLOBAL_FLAG_AS'', ''admin''),
                       (''KUBECTL_PLUGINS_GLOBAL_FLAG_AS_GROUP'', ''{oops'')]"
  let ?empty = "environ [(''KUBECTL_PLUGINS_GLOBAL_FLAG_AS_GROUP'', ''[]'')]"
  let ?some = "environ [(''KUBECTL_PLUGINS_GLOBAL_FLAG_AS_GROUP'', ''['' @ quoted ''a'' @ '',null]'')]"
  let ?cause = "''invalid character 'o' looking for beginning of object key string''"
  have set: "?bad ''KUBECTL_PLUGINS_GLOBAL_FLAG_AS_GROUP'' \<noteq> []"
    by (simp add: environ_def)
  have malformed: "Unmarshal (host []) (?bad ''KUBECTL_PLUGINS_GLOBAL_FLAG_AS_GROUP'') = Inl ?cause"
    by (simp add: environ_def host_fields)
  have parsed: "Unmarshal (host []) (?empty ''KUBECTL_PLUGINS_GLOBAL_FLAG_AS_GROUP'') = Inr []"
    by (simp add: environ_def host_fields)
  have no_timeout: "?empty ''KUBECTL_PLUGINS_GLOBAL_FLAG_REQUEST_TIMEOUT'' = []"
    by (simp add: environ_def)
  have set': "?some ''KUBECTL_PLUGINS_GLOBAL_FLAG_AS_GROUP'' \<noteq> []"
    by (simp add: environ_def)
  have accepted: "Unmarshal (host []) (?some ''KUBECTL_PLUGINS_GLOBAL_FLAG_AS_GROUP'') =
      Inr [''a'', []]"
    by (simp add: environ_def host_fields quoted_def)
  have some: "[''a'', []] \<noteq> ([] :: string list)"
    by simp
  have no_timeout': "?some ''KUBECTL_PLUGINS_GLOBAL_FLAG_REQUEST_TIMEOUT'' = []"
    by (simp add: environ_def)
  have groups: "Groups (Impersonate devConfig) = [''developers'']"
    by (simp add: devConfig_def)
  from as_group_override [where Getenv = ?bad and X = "host []" and cause = ?cause
      and config = devConfig and groups = "[]"] set malformed
  have "fst (applyGlobalOptionsToConfig (host []) ?bad devConfig) =
          Some (InvalidOverride
            (''error parsing global option '' @ quoted ''--as-group'' @ '': '' @ ?cause))"
    and "Groups (Impersonate (snd (applyGlobalOptionsToConfig (host []) ?bad devConfig))) =
          Groups (Impersonate devConfig)"
    by blast+
  moreover from as_group_override [where Getenv = ?empty and X = "host []" and cause = ?cause
      and config = devConfig and groups = "[]"] parsed no_timeout
  have "Groups (Impersonate (snd (applyGlobalOptionsToConfig (host []) ?empty devConfig))) =
          Groups (Impersonate devConfig)"
    and "fst (applyGlobalOptionsToConfig (host []) ?empty devConfig) = None"
    by blast+
  moreover from as_group_override [where Getenv = ?some and X = "host []" and cause = ?cause
      and config = devConfig and groups = "[''a'', []]"] set' accepted some no_timeout'
  have "Groups (Impersonate (snd (applyGlobalOptionsToConfig (host []) ?some devConfig))) =
          [''a'', []]"
    and "fst (applyGlobalOptionsToConfig (host []) ?some devConfig) = None"
    by blast+
  ultimately show ?thesis by (simp add: groups)
qed

lemma impersonationOptions_no_group:
  "fst (impersonationOptions X (Getenv(''KUBECTL_PLUGINS_GLOBAL_FLAG_AS_GROUP'' := [],
          ''KUBECTL_PLUGINS_GLOBAL_FLAG_REQUEST_TIMEOUT'' := v)) config) = None"
  by (simp add: impersonationOptions_def Let_def)

lemma requestOptions_bad_duration:
  "v \<noteq> [] \<Longrightarrow>
   fst (requestOptions (X\<lparr>ParseDuration := (\<lambda>s. Inl cause)\<rparr>)
          (Getenv(''KUBECTL_PLUGINS_GLOBAL_FLAG_REQUEST_TIMEOUT'' := v)) config) =
     Some (InvalidOverride cause)"
  by (simp add: requestOptions_def Let_def)

lemma bad_duration_message:
  "fst (applyGlobalOptionsToConfig (X\<lparr>ParseDuration := (\<lambda>s. Inl cause)\<rparr>)
          (Getenv(''KUBECTL_PLUGINS_GLOBAL_FLAG_AS_GROUP'' := [],
                  ''KUBECTL_PLUGINS_GLOBAL_FLAG_REQUEST_TIMEOUT'' := ''notaduration'')) config) =
     Some (InvalidOverride cause)"
proof -
  let ?X = "X\<lparr>ParseDuration := (\<lambda>s. Inl cause)\<rparr>"
  let ?E = "Getenv(''KUBECTL_PLUGINS_GLOBAL_FLAG_AS_GROUP'' := [],
                  ''KUBECTL_PLUGINS_GLOBAL_FLAG_REQUEST_TIMEOUT'' := ''notaduration'')"
  obtain config' where r: "impersonationOptions ?X ?E config = (None, config')"
    using impersonationOptions_no_group [where X = ?X and Getenv = Getenv
        and v = "''notaduration''" and config = config]
    by (cases "impersonationOptions ?X ?E config") simp
  show ?thesis
    using requestOptions_bad_duration [where v = "''notaduration''" and X = X and cause = cause
        and Getenv = "Getenv(''KUBECTL_PLUGINS_GLOBAL_FLAG_AS_GROUP'' := [])"
        and config = "tlsOptions ?E config'"]
    by (simp add: applyGlobalOptionsToConfig_def r)
qed

lemma host_bad_duration:
  "applyGlobalOptionsToConfig (host [])
     (environ [(''KUBECTL_PLUGINS_GLOBAL_FLAG_REQUEST_TIMEOUT'', ''notaduration'')]) devConfig =
   (Some (InvalidOverride (''time: invalid duration '' @ quoted ''notaduration'')), devConfig)"
  by (simp add: applyGlobalOptionsToConfig_def impersonationOptions_def tlsOptions_def
      requestOptions_def environ_def host_fields)

lemma host_ten_seconds:
  "applyGlobalOptionsToConfig (host [])
     (environ [(''KUBECTL_PLUGINS_GLOBAL_FLAG_REQUEST_TIMEOUT'', ''10s'')]) devConfig =
   (None, devConfig\<lparr>Timeout := 10000000000\<rparr>)"
  by (simp add: applyGlobalOptionsToConfig_def impersonationOptions_def tlsOptions_def
      requestOptions_def environ_def host_fields Second_def)

lemma duration_message_names_no_option:
  "\<not> sublist ''--request-timeout'' (''time: invalid duration '' @ quoted ''notaduration'')"
  by (simp add: quoted_def sublist_Cons_right)

text \<open>
  Claim C7. The value \<open>10s\<close> of the request timeout gives a timeout of ten seconds. A
  value that is no duration should fail with an error that names the option, as the
  error of the group override names \<open>--as-group\<close>. In the source the message of this
  error is the message of \<open>time.ParseDuration\<close> and nothing else: whatever that message
  \<open>cause\<close> is, the error is \<open>InvalidOverride cause\<close>. For \<open>notaduration\<close> the library's
  message quotes the value, and the option \<open>--request-timeout\<close> is not in it.
\<close>

theorem request_timeout_error_names_no_option:
  "fst (applyGlobalOptionsToConfig (X\<lparr>ParseDuration := (\<lambda>s. Inl cause)\<rparr>)
          (Getenv(''KUBECTL_PLUGINS_GLOBAL_FLAG_AS_GROUP'' := [],
                  ''KUBECTL_PLUGINS_GLOBAL_FLAG_REQUEST_TIMEOUT'' := ''notaduration'')) config) =
     Some (InvalidOverride cause)
   \<and> applyGlobalOptionsToConfig (host [])
       (environ [(''KUBECTL_PLUGINS_GLOBAL_FLAG_REQUEST_TIMEOUT'', ''notaduration'')]) devConfig =
     (Some (InvalidOverride (''time: invalid duration '' @ quoted ''notaduration'')), devConfig)
   \<and> \<not> sublist ''--request-timeout'' (''time: invalid duration '' @ quoted ''notaduration'')
   \<and> applyGlobalOptionsToConfig (host [])
       (environ [(''KUBECTL_PLUGINS_GLOBAL_FLAG_REQUEST_TIMEOUT'', ''10s'')]) devConfig =
     (None, devConfig\<lparr>Timeout := 10000000000\<rparr>)
   \<and> (10000000000 :: 64 word) = 10 * Second"
  by (simp only: bad_duration_message host_bad_duration host_ten_seconds
      duration_message_names_no_option Second_def simp_thms) simp

section \<open>When no location is supplied\<close>

lemma Clean_not_empty: "Clean path \<noteq> []"
  by (simp add: Clean_def Let_def)

lemma filepath_Join_default_not_empty: "filepath_Join [home, ''.kube'', ''config''] \<noteq> []"
  by (simp add: filepath_Join_def Clean_not_empty)

lemma kubeconfigLocation_not_empty:
  "kubeconfigLocation (X\<lparr>Join := filepath_Join\<rparr>) Getenv \<noteq> []"
  by (simp add: kubeconfigLocation_chain filepath_Join_default_not_empty)

lemma impersonationOptions_error:
  "fst (impersonationOptions X Getenv config) \<noteq> Some ConfigurationMissing"
  by (simp add: impersonationOptions_def Let_def split: sum.splits)

lemma requestOptions_error:
  "fst (requestOptions X Getenv config) \<noteq> Some ConfigurationMissing"
  by (simp add: requestOptions_def Let_def split: sum.splits)

lemma applyGlobalOptionsToConfig_error:
  "fst (applyGlobalOptionsToConfig X Getenv config) \<noteq> Some ConfigurationMissing"
proof (cases "impersonationOptions X Getenv config")
  case (Pair e config')
  show ?thesis
  proof (cases e)
    case None
    then show ?thesis
      by (simp add: applyGlobalOptionsToConfig_def Pair requestOptions_error)
  next
    case (Some err)
    then show ?thesis
      using impersonationOptions_error [of X Getenv config]
      by (simp add: applyGlobalOptionsToConfig_def Pair)
  qed
qed

lemma configFromPath_error:
  "configFromPath X Getenv path \<noteq> Inl ConfigurationMissing"
  by (simp add: configFromPath_def Let_def split: sum.splits)

lemma initClientAndConfig_not_missing:
  assumes "kubeconfigLocation X Getenv \<noteq> []"
  shows "initClientAndConfig X Getenv \<noteq> Inl ConfigurationMissing"
proof (cases "configFromPath X Getenv (kubeconfigLocation X Getenv)")
  case (Inl err)
  then show ?thesis
    using assms configFromPath_error [of X Getenv "kubeconfigLocation X Getenv"]
    by (simp add: initClientAndConfig_def)
next
  case (Inr config)
  show ?thesis
  proof (cases "ClientConfig X config")
    case (Inl err)
    then show ?thesis using assms Inr by (simp add: initClientAndConfig_def)
  next
    case client: (Inr client)
    obtain e client' where r: "applyGlobalOptionsToConfig X Getenv client = (e, client')"
      by (cases "applyGlobalOptionsToConfig X Getenv client")
    show ?thesis
      using assms Inr client r applyGlobalOptionsToConfig_error [of X Getenv client]
      by (cases e) (simp_all add: initClientAndConfig_def)
  qed
qed

lemma host_no_variable:
  "initClientAndConfig (host L) (environ []) =
     Inl (ConfigurationInvalid ''.kube/config'' ''no such file or directory'')"
  by (simp add: initClientAndConfig_def configFromPath_def kubeconfigLocation_chain environ_def
      host_fields no_home_default)




text \<open>
  Whether the last condition can hold is a matter of \<open>filepath.Join\<close>. With the join of
  the sample host it cannot: the default is never empty, so there the error is not
  returned, and with no variable set the path is the relative \<open>.kube/config\<close>.
\<close>

lemma no_ConfigurationMissing_with_filepath_Join:
  "initClientAndConfig (X\<lparr>Join := filepath_Join\<rparr>) Getenv \<noteq> Inl ConfigurationMissing"
  using initClientAndConfig_not_missing [OF kubeconfigLocation_not_empty, of X Getenv] .

lemma no_variable_location: "kubeconfigLocation (host L) (environ []) = ''.kube/config''"
  by (simp add: kubeconfigLocation_chain environ_def host_fields no_home_default)

section \<open>The catalog\<close>

lemma GetSupportedService_success:
  assumes "initClientAndConfig X Getenv = Inr (config, cc)"
    and "NewDiscoveryClientForConfig X config = Inr dc"
    and "ServerPreferredResources X dc = Inr listing"
    and "NewProviderWrapper X ''kubernetes'' (verbose = ''true'') = Inr provider"
  shows "GetSupportedService X Getenv verbose =
           (map_of (rev (entries X (GetSchema X provider) listing)), [])"
  using assms by (simp add: GetSupportedService_def listLoop_entries)

lemma dev_init:
  assumes "GOOS X = ''linux''" and "Join X = filepath_Join"
    and "Load X = Load (host L)" and "ClientConfig X = ClientConfig (host L)"
  shows "initClientAndConfig X devEnv =
    Inr (devConfig, NewDefaultClientConfig ''/home/dev/.kube/config'' \<lparr>Namespace = []\<rparr>)"
  by (simp add: initClientAndConfig_def kubeconfigLocation_chain configFromPath_def
      applyGlobalOptionsToConfig_def impersonationOptions_def tlsOptions_def requestOptions_def
      devEnv_def environ_def assms host_fields home_default)

lemma catalog_key:
  "map_of (rev (entries X types listing)) n \<noteq> None \<longleftrightarrow>
     (\<exists>l\<in>set listing. \<exists>gv. ParseGroupVersion X (GroupVersion l) = Inr gv \<and>
        (\<exists>r\<in>set (APIResources l). resName r = n \<and> importable X types r))"
proof -
  have "map_of (rev (entries X types listing)) n \<noteq> None \<longleftrightarrow>
        (\<exists>k. (n, k) \<in> set (entries X types listing))"
    by (force simp: map_of_eq_None_iff)
  then show ?thesis unfolding in_entries by blast
qed

lemma catalog_value:
  assumes "map_of (rev (entries X types listing)) n = Some k"
  shows "\<exists>l\<in>set listing. \<exists>gv. ParseGroupVersion X (GroupVersion l) = Inr gv \<and>
           (\<exists>r\<in>set (APIResources l). resName r = n \<and> importable X types r \<and> k = kindOf gv r)"
proof -
  from assms have "(n, k) \<in> set (entries X types listing)"
    using map_of_SomeD by fastforce
  then show ?thesis unfolding in_entries by blast
qed

lemma catalog_unique:
  assumes l: "l \<in> set listing" and gv: "ParseGroupVersion X (GroupVersion l) = Inr gv"
    and r: "r \<in> set (APIResources l)" and imp: "importable X types r"
    and same: "\<forall>l'\<in>set listing. \<forall>gv'. ParseGroupVersion X (GroupVersion l') = Inr gv' \<longrightarrow>
      (\<forall>r'\<in>set (APIResources l'). resName r' = resName r \<and> importable X types r' \<longrightarrow>
         kindOf gv' r' = kindOf gv r)"
  shows "map_of (rev (entries X types listing)) (resName r) = Some (kindOf gv r)"
proof -
  have "map_of (rev (entries X types listing)) (resName r) \<noteq> None"
    unfolding catalog_key using l gv r imp by blast
  then obtain k where k: "map_of (rev (entries X types listing)) (resName r) = Some k"
    by blast
  from catalog_value [OF k] same have "k = kindOf gv r" by blast
  with k show ?thesis by simp
qed

lemma entries_append:
  "entries X types (ls @ ls') = entries X types ls @ entries X types ls'"
  by (induction ls) simp_all

lemma map_of_rev_last:
  assumes "n \<notin> fst ` set after"
  shows "map_of (rev (before @ (n, k) # after)) n = Some k"
proof -
  have "map_of (rev after) n = None"
    using assms by (simp add: map_of_eq_None_iff)
  then show ?thesis by (simp add: map_add_def)
qed

lemma catalog_last:
  assumes listing: "listing = pre @ l # post"
    and resources: "APIResources l = rs1 @ r # rs2"
    and gv: "ParseGroupVersion X (GroupVersion l) = Inr gv"
    and imp: "importable X types r"
    and later: "\<forall>r'\<in>set rs2. importable X types r' \<longrightarrow> resName r' \<noteq> resName r"
    and later_lists: "\<forall>l'\<in>set post. \<forall>gv'. ParseGroupVersion X (GroupVersion l') = Inr gv' \<longrightarrow>
      (\<forall>r'\<in>set (APIResources l'). importable X types r' \<longrightarrow> resName r' \<noteq> resName r)"
  shows "map_of (rev (entries X types listing)) (resName r) = Some (kindOf gv r)"
proof -
  let ?f = "\<lambda>r. (resName r, kindOf gv r)"
  let ?before = "entries X types pre @ map ?f (filter (importable X types) rs1)"
  let ?after = "map ?f (filter (importable X types) rs2) @ entries X types post"
  have split: "entries X types listing = ?before @ (resName r, kindOf gv r) # ?after"
    using gv imp by (simp add: listing resources entries_append)
  have "resName r \<notin> fst ` set (map ?f (filter (importable X types) rs2))"
    using later by auto
  moreover have "resName r \<notin> fst ` set (entries X types post)"
  proof
    assume "resName r \<in> fst ` set (entries X types post)"
    then obtain k where "(resName r, k) \<in> set (entries X types post)"
      by auto
    then obtain l' gv' r' where "l' \<in> set post"
      "ParseGroupVersion X (GroupVersion l') = Inr gv'" "r' \<in> set (APIResources l')"
      "importable X types r'" "resName r = resName r'"
      unfolding in_entries by blast
    with later_lists show False by metis
  qed
  ultimately have "resName r \<notin> fst ` set ?after"
    by (simp add: image_Un)
  from map_of_rev_last [OF this, of ?before "kindOf gv r"] show ?thesis
    by (simp only: split)
qed

text \<open>
  Claim C4. Once the configuration is resolved, a failure to open the discovery
  connection, a failure of the request for the server's preferred resources and a
  failure to open the schema provider's session each end \<open>GetSupportedService\<close> with
  the empty catalog; the error goes to the log and not to the caller.
\<close>

theorem discovery_failures_give_empty_catalog:
  assumes "initClientAndConfig X Getenv = Inr (config, cc)"
  shows "(NewDiscoveryClientForConfig X config = Inl err \<longrightarrow>
            GetSupportedService X Getenv verbose = (Map.empty, [err]))
       \<and> (\<forall>dc. NewDiscoveryClientForConfig X config = Inr dc \<longrightarrow>
            ServerPreferredResources X dc = Inl err \<longrightarrow>
            GetSupportedService X Getenv verbose = (Map.empty, [err]))
       \<and> (\<forall>dc listing. NewDiscoveryClientForConfig X config = Inr dc \<longrightarrow>
            ServerPreferredResources X dc = Inr listing \<longrightarrow>
            NewProviderWrapper X ''kubernetes'' (verbose = ''true'') = Inl err \<longrightarrow>
            GetSupportedService X Getenv verbose = (Map.empty, [err]))"
  using assms by (simp add: GetSupportedService_def)

theorem discovery_failures_give_empty_catalog_witness:
  "GetSupportedService ((host [coreV1])\<lparr>NewDiscoveryClientForConfig := (\<lambda>config. Inl ''connection refused'')\<rparr>)
     devEnv ''false'' = (Map.empty, [''connection refused''])
   \<and> GetSupportedService ((host [coreV1])\<lparr>ServerPreferredResources := (\<lambda>dc. Inl ''Unauthorized'')\<rparr>)
     devEnv ''false'' = (Map.empty, [''Unauthorized''])
   \<and> GetSupportedService ((host [coreV1])\<lparr>NewProviderWrapper := (\<lambda>name verbose. Inl ''no plugin'')\<rparr>)
     devEnv ''false'' = (Map.empty, [''no plugin''])"
proof -
  let ?cc = "NewDefaultClientConfig ''/home/dev/.kube/config'' \<lparr>Namespace = []\<rparr>"
  let ?X1 = "(host [coreV1])\<lparr>NewDiscoveryClientForConfig := (\<lambda>config. Inl ''connection refused'')\<rparr>"
  let ?X2 = "(host [coreV1])\<lparr>ServerPreferredResources := (\<lambda>dc. Inl ''Unauthorized'')\<rparr>"
  let ?X3 = "(host [coreV1])\<lparr>NewProviderWrapper := (\<lambda>name verbose. Inl ''no plugin'')\<rparr>"
  have i1: "initClientAndConfig ?X1 devEnv = Inr (devConfig, ?cc)"
    by (rule dev_init [where L = "[coreV1]"]) (simp_all add: host_fields)
  have i2: "initClientAndConfig ?X2 devEnv = Inr (devConfig, ?cc)"
    by (rule dev_init [where L = "[coreV1]"]) (simp_all add: host_fields)
  have i3: "initClientAndConfig ?X3 devEnv = Inr (devConfig, ?cc)"
    by (rule dev_init [where L = "[coreV1]"]) (simp_all add: host_fields)
  from discovery_failures_give_empty_catalog [OF i1, of "''connection refused''" "''false''"]
  have "GetSupportedService ?X1 devEnv ''false'' = (Map.empty, [''connection refused''])"
    by simp
  moreover
  from discovery_failures_give_empty_catalog [OF i2, of "''Unauthorized''" "''false''"]
  have "GetSupportedService ?X2 devEnv ''false'' = (Map.empty, [''Unauthorized''])"
    by (simp add: host_fields)
  moreover
  from discovery_failures_give_empty_catalog [OF i3, of "''no plugin''" "''false''"]
  have "GetSupportedService ?X3 devEnv ''false'' = (Map.empty, [''no plugin''])"
    by (simp add: host_fields)
  ultimately show ?thesis by simp
qed


section \<open>The catalog of the sample cluster\<close>

lemma dev_catalog:
  "GetSupportedService (host L) devEnv ''false'' =
     (map_of (rev (entries (host L)
        {''kubernetes_pod'', ''kubernetes_ingress'', ''kubernetes_config_map''} L)), [])"
proof -
  have "initClientAndConfig (host L) devEnv =
      Inr (devConfig, NewDefaultClientConfig ''/home/dev/.kube/config'' \<lparr>Namespace = []\<rparr>)"
    by (rule dev_init [where L = L]) (simp_all add: host_fields)
  from GetSupportedService_success [OF this, of devConfig L "''false''" False]
  show ?thesis by (simp add: host_fields)
qed

lemma parse_samples:
  "schema_ParseGroupVersion ''v1'' = Inr ([], ''v1'')"
  "schema_ParseGroupVersion ''extensions/v1beta1'' = Inr (''extensions'', ''v1beta1'')"
  "schema_ParseGroupVersion ''networking.k8s.io/v1beta1'' = Inr (''networking.k8s.io'', ''v1beta1'')"
  "schema_ParseGroupVersion ''apps/v1/beta'' = Inl ''unexpected GroupVersion string: apps/v1/beta''"
  by (simp_all add: schema_ParseGroupVersion_def)

lemma entries_coreV1:
  "entries (host L) {''kubernetes_pod'', ''kubernetes_ingress'', ''kubernetes_config_map''}
     [coreV1] =
   [(''pods'', \<lparr>Group = [], Version = ''v1'', Name = ''Pod'', Namespaced = True\<rparr>),
    (''configmaps'', \<lparr>Group = [], Version = ''v1'', Name = ''ConfigMap'', Namespaced = True\<rparr>)]"
  by (simp add: coreV1_def host_fields parse_samples importable_def kindOf_def)

lemma entries_malformed:
  "entries (host L) {''kubernetes_pod'', ''kubernetes_ingress'', ''kubernetes_config_map''}
     [malformedGroupVersion] = []"
  by (simp add: malformedGroupVersion_def host_fields parse_samples)

lemma entries_ingresses:
  "entries (host L) {''kubernetes_pod'', ''kubernetes_ingress'', ''kubernetes_config_map''}
     [extensionsV1beta1, networkingV1beta1] =
   [(''ingresses'', \<lparr>Group = ''extensions'', Version = ''v1beta1'', Name = ''Ingress'',
                     Namespaced = True\<rparr>),
    (''ingresses'', \<lparr>Group = ''networking.k8s.io'', Version = ''v1beta1'', Name = ''Ingress'',
                     Namespaced = True\<rparr>)]"
  by (simp add: networkingV1beta1_def extensionsV1beta1_def host_fields parse_samples
      importable_def kindOf_def)

section \<open>Which resources the catalog holds\<close>

text \<open>
  Claim C2, as stated, fails in two ways. The pods of \<open>malformedGroupVersion\<close> can be
  listed and the schema declares them, but the string \<open>apps/v1/beta\<close> of their
  group/version does not parse and the source skips the whole group/version: \<open>pods\<close> is
  not in the catalog. The ingresses of \<open>extensions/v1beta1\<close> can be listed and are
  declared too, but \<open>networking.k8s.io/v1beta1\<close> comes later in the listing with the
  same plural name and replaces the entry: the descriptor under \<open>ingresses\<close> does not
  carry the group \<open>extensions\<close>.
\<close>

theorem catalog_claim_counterexample:
  "list_all (importable (host [malformedGroupVersion]) (GetSchema (host [malformedGroupVersion]) False))
     (APIResources malformedGroupVersion)
   \<and> map resName (APIResources malformedGroupVersion) = [''pods'']
   \<and> fst (GetSupportedService (host [malformedGroupVersion]) devEnv ''false'') ''pods'' = None
   \<and> list_all (importable (host [extensionsV1beta1, networkingV1beta1])
        (GetSchema (host [extensionsV1beta1, networkingV1beta1]) False))
        (APIResources extensionsV1beta1)
   \<and> map resName (APIResources extensionsV1beta1) = [''ingresses'']
   \<and> fst (GetSupportedService (host [extensionsV1beta1, networkingV1beta1]) devEnv ''false'')
        ''ingresses'' =
      Some \<lparr>Group = ''networking.k8s.io'', Version = ''v1beta1'', Name = ''Ingress'',
            Namespaced = True\<rparr>"
proof (intro conjI)
  show "list_all (importable (host [malformedGroupVersion])
      (GetSchema (host [malformedGroupVersion]) False)) (APIResources malformedGroupVersion)"
    by (simp add: malformedGroupVersion_def importable_def host_fields)
  show "map resName (APIResources malformedGroupVersion) = [''pods'']"
    by (simp add: malformedGroupVersion_def)
  show "fst (GetSupportedService (host [malformedGroupVersion]) devEnv ''false'') ''pods'' = None"
    by (simp add: dev_catalog entries_malformed del: entries.simps)
  show "list_all (importable (host [extensionsV1beta1, networkingV1beta1])
      (GetSchema (host [extensionsV1beta1, networkingV1beta1]) False))
      (APIResources extensionsV1beta1)"
    by (simp add: extensionsV1beta1_def importable_def host_fields)
  show "map resName (APIResources extensionsV1beta1) = [''ingresses'']"
    by (simp add: extensionsV1beta1_def)
  show "fst (GetSupportedService (host [extensionsV1beta1, networkingV1beta1]) devEnv ''false'')
      ''ingresses'' =
    Some \<lparr>Group = ''networking.k8s.io'', Version = ''v1beta1'', Name = ''Ingress'',
          Namespaced = True\<rparr>"
    by (simp add: dev_catalog entries_ingresses del: entries.simps)
qed

text \<open>
  Claim C2, amended. When the configuration, the listing and the schema provider's
  session have been obtained: a plural name is a key of the catalog if and only if some
  resource of that name, in a group/version whose string parses, has \<open>list\<close> among its
  verbs and a type declared under its normalised kind; the catalog is a map, so the key
  is there once; and the descriptor under it is that of the last such resource of the
  listing: it carries the group and version parsed from that resource's group/version
  string, its original kind and its namespaced flag. So the descriptor is that of a
  given importable resource when no importable resource of the same plural name comes
  after it, in its own group/version or in a later one that parses, and in particular
  when the plural name occurs once.
\<close>

theorem catalog_of_importable_resources:
  assumes "initClientAndConfig X Getenv = Inr (config, cc)"
    and "NewDiscoveryClientForConfig X config = Inr dc"
    and "ServerPreferredResources X dc = Inr listing"
    and "NewProviderWrapper X ''kubernetes'' (verbose = ''true'') = Inr provider"
  shows "(fst (GetSupportedService X Getenv verbose) n \<noteq> None \<longleftrightarrow>
           (\<exists>l\<in>set listing. \<exists>gv. ParseGroupVersion X (GroupVersion l) = Inr gv \<and>
              (\<exists>r\<in>set (APIResources l). resName r = n \<and> ''list'' \<in> set (Verbs r) \<and>
                 extractTfResourceName X (resKind r) \<in> GetSchema X provider)))
       \<and> (\<forall>k. fst (GetSupportedService X Getenv verbose) n = Some k \<longrightarrow>
           (\<exists>l\<in>set listing. \<exists>gv. ParseGroupVersion X (GroupVersion l) = Inr gv \<and>
              (\<exists>r\<in>set (APIResources l). resName r = n \<and> ''list'' \<in> set (Verbs r) \<and>
                 extractTfResourceName X (resKind r) \<in> GetSchema X provider \<and>
                 k = \<lparr>Group = fst gv, Version = snd gv, Name = resKind r,
                      Namespaced = resNamespaced r\<rparr>)))
       \<and> (\<forall>l gv r. l \<in> set listing \<longrightarrow> ParseGroupVersion X (GroupVersion l) = Inr gv \<longrightarrow>
             r \<in> set (APIResources l) \<longrightarrow> importable X (GetSchema X provider) r \<longrightarrow>
             (\<forall>l'\<in>set listing. \<forall>gv'. ParseGroupVersion X (GroupVersion l') = Inr gv' \<longrightarrow>
                (\<forall>r'\<in>set (APIResources l').
                   resName r' = resName r \<and> importable X (GetSchema X provider) r' \<longrightarrow>
                   kindOf gv' r' = kindOf gv r)) \<longrightarrow>
             fst (GetSupportedService X Getenv verbose) (resName r) =
               Some \<lparr>Group = fst gv, Version = snd gv, Name = resKind r,
                     Namespaced = resNamespaced r\<rparr>)
       \<and> (\<forall>pre l post rs1 r rs2 gv.
             listing = pre @ l # post \<longrightarrow> APIResources l = rs1 @ r # rs2 \<longrightarrow>
             ParseGroupVersion X (GroupVersion l) = Inr gv \<longrightarrow>
             importable X (GetSchema X provider) r \<longrightarrow>
             (\<forall>r'\<in>set rs2. importable X (GetSchema X provider) r' \<longrightarrow>
                resName r' \<noteq> resName r) \<longrightarrow>
             (\<forall>l'\<in>set post. \<forall>gv'. ParseGroupVersion X (GroupVersion l') = Inr gv' \<longrightarrow>
                (\<forall>r'\<in>set (APIResources l').
                   importable X (GetSchema X provider) r' \<longrightarrow> resName r' \<noteq> resName r)) \<longrightarrow>
             fst (GetSupportedService X Getenv verbose) (resName r) =
               Some \<lparr>Group = fst gv, Version = snd gv, Name = resKind r,
                     Namespaced = resNamespaced r\<rparr>)"
proof -
  have c: "fst (GetSupportedService X Getenv verbose) =
      map_of (rev (entries X (GetSchema X provider) listing))"
    by (simp add: GetSupportedService_success [OF assms])
  show ?thesis
  proof (intro conjI allI impI)
    show "fst (GetSupportedService X Getenv verbose) n \<noteq> None \<longleftrightarrow>
           (\<exists>l\<in>set listing. \<exists>gv. ParseGroupVersion X (GroupVersion l) = Inr gv \<and>
              (\<exists>r\<in>set (APIResources l). resName r = n \<and> ''list'' \<in> set (Verbs r) \<and>
                 extractTfResourceName X (resKind r) \<in> GetSchema X provider))"
      unfolding c catalog_key by (simp add: importable_def)
  next
    fix k assume "fst (GetSupportedService X Getenv verbose) n = Some k"
    then have "map_of (rev (entries X (GetSchema X provider) listing)) n = Some k"
      by (simp add: c)
    from catalog_value [OF this]
    show "\<exists>l\<in>set listing. \<exists>gv. ParseGroupVersion X (GroupVersion l) = Inr gv \<and>
              (\<exists>r\<in>set (APIResources l). resName r = n \<and> ''list'' \<in> set (Verbs r) \<and>
                 extractTfResourceName X (resKind r) \<in> GetSchema X provider \<and>
                 k = \<lparr>Group = fst gv, Version = snd gv, Name = resKind r,
                      Namespaced = resNamespaced r\<rparr>)"
      by (simp add: importable_def kindOf_def)
  next
    fix l gv r
    assume "l \<in> set listing" "ParseGroupVersion X (GroupVersion l) = Inr gv"
      "r \<in> set (APIResources l)" "importable X (GetSchema X provider) r"
      "\<forall>l'\<in>set listing. \<forall>gv'. ParseGroupVersion X (GroupVersion l') = Inr gv' \<longrightarrow>
         (\<forall>r'\<in>set (APIResources l').
            resName r' = resName r \<and> importable X (GetSchema X provider) r' \<longrightarrow>
            kindOf gv' r' = kindOf gv r)"
    from catalog_unique [OF this]
    show "fst (GetSupportedService X Getenv verbose) (resName r) =
        Some \<lparr>Group = fst gv, Version = snd gv, Name = resKind r,
              Namespaced = resNamespaced r\<rparr>"
      by (simp add: c kindOf_def)
  next
    fix pre l post rs1 r rs2 gv
    assume "listing = pre @ l # post" "APIResources l = rs1 @ r # rs2"
      "ParseGroupVersion X (GroupVersion l) = Inr gv" "importable X (GetSchema X provider) r"
      "\<forall>r'\<in>set rs2. importable X (GetSchema X provider) r' \<longrightarrow> resName r' \<noteq> resName r"
      "\<forall>l'\<in>set post. \<forall>gv'. ParseGroupVersion X (GroupVersion l') = Inr gv' \<longrightarrow>
         (\<forall>r'\<in>set (APIResources l').
            importable X (GetSchema X provider) r' \<longrightarrow> resName r' \<noteq> resName r)"
    from catalog_last [OF this]
    show "fst (GetSupportedService X Getenv verbose) (resName r) =
        Some \<lparr>Group = fst gv, Version = snd gv, Name = resKind r,
              Namespaced = resNamespaced r\<rparr>"
      by (simp add: c kindOf_def)
  qed
qed

theorem catalog_of_importable_resources_witness:
  "fst (GetSupportedService (host [coreV1, extensionsV1beta1]) devEnv ''false'') ''pods'' =
     Some \<lparr>Group = [], Version = ''v1'', Name = ''Pod'', Namespaced = True\<rparr>
   \<and> fst (GetSupportedService (host [coreV1, extensionsV1beta1]) devEnv ''false'') ''ingresses'' \<noteq> None
   \<and> fst (GetSupportedService (host [coreV1, extensionsV1beta1]) devEnv ''false'') ''events'' = None
   \<and> fst (GetSupportedService (host [extensionsV1beta1, networkingV1beta1]) devEnv ''false'')
       ''ingresses'' =
     Some \<lparr>Group = ''networking.k8s.io'', Version = ''v1beta1'', Name = ''Ingress'',
           Namespaced = True\<rparr>"
proof -
  let ?L = "[coreV1, extensionsV1beta1]"
  let ?pods = "\<lparr>resName = ''pods'', resNamespaced = True, resKind = ''Pod'',
                Verbs = [''create'', ''delete'', ''get'', ''list'', ''watch'']\<rparr>"
  let ?ingresses = "\<lparr>resName = ''ingresses'', resNamespaced = True, resKind = ''Ingress'',
                     Verbs = [''get'', ''list'']\<rparr>"
  have init: "initClientAndConfig (host ?L) devEnv =
      Inr (devConfig, NewDefaultClientConfig ''/home/dev/.kube/config'' \<lparr>Namespace = []\<rparr>)"
    by (rule dev_init [where L = ?L]) (simp_all add: host_fields)
  have dc: "NewDiscoveryClientForConfig (host ?L) devConfig = Inr devConfig"
    and listing: "ServerPreferredResources (host ?L) devConfig = Inr ?L"
    and provider: "NewProviderWrapper (host ?L) ''kubernetes'' (''false'' = ''true'') = Inr False"
    by (simp_all add: host_fields)
  note catalog = catalog_of_importable_resources [OF init dc listing provider]
  have core: "ParseGroupVersion (host ?L) (GroupVersion coreV1) = Inr ([], ''v1'')"
    and ext: "ParseGroupVersion (host ?L) (GroupVersion extensionsV1beta1) =
        Inr (''extensions'', ''v1beta1'')"
    by (simp_all add: host_fields coreV1_def extensionsV1beta1_def parse_samples)
  have pods: "?pods \<in> set (APIResources coreV1)"
    and pods_importable: "importable (host ?L) (GetSchema (host ?L) False) ?pods"
    by (simp_all add: coreV1_def importable_def host_fields)
  have only: "\<forall>l'\<in>set ?L. \<forall>gv'. ParseGroupVersion (host ?L) (GroupVersion l') = Inr gv' \<longrightarrow>
      (\<forall>r'\<in>set (APIResources l').
         resName r' = resName ?pods \<and> importable (host ?L) (GetSchema (host ?L) False) r' \<longrightarrow>
         kindOf gv' r' = kindOf ([], ''v1'') ?pods)"
    by (simp add: coreV1_def extensionsV1beta1_def host_fields parse_samples kindOf_def)
  have mem: "coreV1 \<in> set ?L"
    by simp
  note third = catalog [of "''pods''", THEN conjunct2, THEN conjunct2, THEN conjunct1, THEN spec, THEN spec,
      THEN spec, of coreV1 "([], ''v1'')" ?pods]
  from third [THEN mp, OF mem, THEN mp, OF core, THEN mp, OF pods, THEN mp, OF pods_importable,
      THEN mp, OF only]
  have a: "fst (GetSupportedService (host ?L) devEnv ''false'') ''pods'' =
      Some \<lparr>Group = [], Version = ''v1'', Name = ''Pod'', Namespaced = True\<rparr>"
    by simp
  have "\<exists>l\<in>set ?L. \<exists>gv. ParseGroupVersion (host ?L) (GroupVersion l) = Inr gv \<and>
      (\<exists>r\<in>set (APIResources l). resName r = ''ingresses'' \<and> ''list'' \<in> set (Verbs r) \<and>
         extractTfResourceName (host ?L) (resKind r) \<in> GetSchema (host ?L) False)"
    using ext by (simp add: extensionsV1beta1_def host_fields)
  with catalog [of "''ingresses''"]
  have b: "fst (GetSupportedService (host ?L) devEnv ''false'') ''ingresses'' \<noteq> None"
    by blast
  have "\<not> (\<exists>l\<in>set ?L. \<exists>gv. ParseGroupVersion (host ?L) (GroupVersion l) = Inr gv \<and>
      (\<exists>r\<in>set (APIResources l). resName r = ''events'' \<and> ''list'' \<in> set (Verbs r) \<and>
         extractTfResourceName (host ?L) (resKind r) \<in> GetSchema (host ?L) False))"
    by (simp add: coreV1_def extensionsV1beta1_def host_fields)
  with catalog [of "''events''"]
  have c: "fst (GetSupportedService (host ?L) devEnv ''false'') ''events'' = None"
    by blast
  let ?L2 = "[extensionsV1beta1, networkingV1beta1]"
  have init2: "initClientAndConfig (host ?L2) devEnv =
      Inr (devConfig, NewDefaultClientConfig ''/home/dev/.kube/config'' \<lparr>Namespace = []\<rparr>)"
    by (rule dev_init [where L = ?L2]) (simp_all add: host_fields)
  have dc2: "NewDiscoveryClientForConfig (host ?L2) devConfig = Inr devConfig"
    and listing2: "ServerPreferredResources (host ?L2) devConfig = Inr ?L2"
    and provider2: "NewProviderWrapper (host ?L2) ''kubernetes'' (''false'' = ''true'') = Inr False"
    by (simp_all add: host_fields)
  have split: "?L2 = [extensionsV1beta1] @ networkingV1beta1 # []"
    and resources: "APIResources networkingV1beta1 = [] @ ?ingresses # []"
    and net: "ParseGroupVersion (host ?L2) (GroupVersion networkingV1beta1) =
        Inr (''networking.k8s.io'', ''v1beta1'')"
    and ingresses_importable: "importable (host ?L2) (GetSchema (host ?L2) False) ?ingresses"
    and none_later: "\<forall>r'\<in>set []. importable (host ?L2) (GetSchema (host ?L2) False) r' \<longrightarrow>
        resName r' \<noteq> resName ?ingresses"
    and no_later_list: "\<forall>l'\<in>set []. \<forall>gv'.
        ParseGroupVersion (host ?L2) (GroupVersion l') = Inr gv' \<longrightarrow>
        (\<forall>r'\<in>set (APIResources l').
           importable (host ?L2) (GetSchema (host ?L2) False) r' \<longrightarrow>
           resName r' \<noteq> resName ?ingresses)"
    by (simp_all add: networkingV1beta1_def host_fields parse_samples importable_def)
  note last = catalog_of_importable_resources [OF init2 dc2 listing2 provider2,
      of "''ingresses''", THEN conjunct2, THEN conjunct2, THEN conjunct2,
      THEN spec, THEN spec, THEN spec, THEN spec, THEN spec, THEN spec, THEN spec,
      of "[extensionsV1beta1]" networkingV1beta1 "[]" "[]" ?ingresses "[]"
        "(''networking.k8s.io'', ''v1beta1'')"]
  from last [THEN mp, OF split, THEN mp, OF resources, THEN mp, OF net,
      THEN mp, OF ingresses_importable, THEN mp, OF none_later, THEN mp, OF no_later_list]
  have d: "fst (GetSupportedService (host ?L2) devEnv ''false'') ''ingresses'' =
      Some \<lparr>Group = ''networking.k8s.io'', Version = ''v1beta1'', Name = ''Ingress'',
            Namespaced = True\<rparr>"
    by simp
  from a b c d show ?thesis by blast
qed

lemma other_fields:
  "GOOS (X\<lparr>ServerPreferredResources := f\<rparr>) = GOOS X"
  "Join (X\<lparr>ServerPreferredResources := f\<rparr>) = Join X"
  "Load (X\<lparr>ServerPreferredResources := f\<rparr>) = Load X"
  "ClientConfig (X\<lparr>ServerPreferredResources := f\<rparr>) = ClientConfig X"
  "Unmarshal (X\<lparr>ServerPreferredResources := f\<rparr>) = Unmarshal X"
  "ParseDuration (X\<lparr>ServerPreferredResources := f\<rparr>) = ParseDuration X"
  "ParseGroupVersion (X\<lparr>ServerPreferredResources := f\<rparr>) = ParseGroupVersion X"
  "extractTfResourceName (X\<lparr>ServerPreferredResources := f\<rparr>) = extractTfResourceName X"
  by simp_all

lemma initClientAndConfig_other_listing:
  "initClientAndConfig (X\<lparr>ServerPreferredResources := f\<rparr>) Getenv = initClientAndConfig X Getenv"
  unfolding initClientAndConfig_def kubeconfigLocation_def configFromPath_def
    applyGlobalOptionsToConfig_def impersonationOptions_def requestOptions_def other_fields
  by (rule refl)

lemma importable_other_listing:
  "importable (X\<lparr>ServerPreferredResources := f\<rparr>) types = importable X types"
  by (simp add: importable_def fun_eq_iff)

lemma entries_other_listing:
  "entries (X\<lparr>ServerPreferredResources := f\<rparr>) types ls = entries X types ls"
  by (induction ls) (simp_all add: importable_other_listing split: sum.splits)

lemma GetSupportedService_entries:
  "GetSupportedService X Getenv verbose =
     (case initClientAndConfig X Getenv of
        Inl err \<Rightarrow> (Map.empty, [])
      | Inr (config, cc) \<Rightarrow>
         (case NewDiscoveryClientForConfig X config of
            Inl err \<Rightarrow> (Map.empty, [err])
          | Inr dc \<Rightarrow>
             (case ServerPreferredResources X dc of
                Inl err \<Rightarrow> (Map.empty, [err])
              | Inr listing \<Rightarrow>
                 (case NewProviderWrapper X ''kubernetes'' (verbose = ''true'') of
                    Inl err \<Rightarrow> (Map.empty, [err])
                  | Inr provider \<Rightarrow>
                      (map_of (rev (entries X (GetSchema X provider) listing)), [])))))"
  by (simp add: GetSupportedService_def Let_def listLoop_entries split: sum.splits prod.splits)

lemma GetSupportedService_listableOnly:
  "GetSupportedService
     (X\<lparr>ServerPreferredResources :=
          (\<lambda>dc. case ServerPreferredResources X dc of
                   Inl err \<Rightarrow> Inl err
                 | Inr listing \<Rightarrow> Inr (map listableOnly listing))\<rparr>) Getenv verbose =
   GetSupportedService X Getenv verbose"
  by (simp add: GetSupportedService_entries initClientAndConfig_other_listing
      entries_other_listing entries_listableOnly split: sum.splits prod.splits)

lemma not_listed_not_in_catalog:
  assumes "initClientAndConfig X Getenv = Inr (config, cc)"
    and "NewDiscoveryClientForConfig X config = Inr dc"
    and "ServerPreferredResources X dc = Inr listing"
    and none: "\<forall>l\<in>set listing. \<forall>r\<in>set (APIResources l).
           resName r = n \<longrightarrow> Verbs r = [] \<or> ''list'' \<notin> set (Verbs r)"
  shows "fst (GetSupportedService X Getenv verbose) n = None"
proof (cases "NewProviderWrapper X ''kubernetes'' (verbose = ''true'')")
  case (Inl err)
  then show ?thesis using assms by (simp add: GetSupportedService_def)
next
  case (Inr provider)
  have "\<not> (\<exists>l\<in>set listing. \<exists>gv. ParseGroupVersion X (GroupVersion l) = Inr gv \<and>
        (\<exists>r\<in>set (APIResources l). resName r = n \<and> importable X (GetSchema X provider) r))"
    using none by (fastforce simp: importable_def)
  then have "map_of (rev (entries X (GetSchema X provider) listing)) n = None"
    using catalog_key [of X "GetSchema X provider" listing n] by blast
  then show ?thesis
    by (simp add: GetSupportedService_success [OF assms(1-3) Inr])
qed

text \<open>
  Claim C3. A resource whose verbs are empty or do not include \<open>list\<close> never appears in
  the catalog: deleting every such resource from the listing leaves the result of
  \<open>GetSupportedService\<close> as it is, and a plural name that only such resources bear is
  not a key of the catalog.
\<close>

theorem unlistable_resources_never_appear:
  "GetSupportedService
     (X\<lparr>ServerPreferredResources :=
          (\<lambda>dc. case ServerPreferredResources X dc of
                   Inl err \<Rightarrow> Inl err
                 | Inr listing \<Rightarrow> Inr (map listableOnly listing))\<rparr>) Getenv verbose =
   GetSupportedService X Getenv verbose
   \<and> (\<forall>config cc dc listing.
        initClientAndConfig X Getenv = Inr (config, cc) \<longrightarrow>
        NewDiscoveryClientForConfig X config = Inr dc \<longrightarrow>
        ServerPreferredResources X dc = Inr listing \<longrightarrow>
        (\<forall>l\<in>set listing. \<forall>r\<in>set (APIResources l).
           resName r = n \<longrightarrow> Verbs r = [] \<or> ''list'' \<notin> set (Verbs r)) \<longrightarrow>
        fst (GetSupportedService X Getenv verbose) n = None)"
  using GetSupportedService_listableOnly [of X Getenv verbose]
    not_listed_not_in_catalog [of X Getenv _ _ _ _ n verbose]
  by blast

theorem unlistable_resources_never_appear_witness:
  "GetSupportedService
     ((host [coreV1])\<lparr>ServerPreferredResources := (\<lambda>dc. Inr (map listableOnly [coreV1]))\<rparr>)
     devEnv ''false'' =
   GetSupportedService (host [coreV1]) devEnv ''false''
   \<and> fst (GetSupportedService (host [coreV1]) devEnv ''false'') ''bindings'' = None
   \<and> fst (GetSupportedService (host [coreV1]) devEnv ''false'') ''podtemplates'' = None"
proof -
  let ?L = "[coreV1]"
  have init: "initClientAndConfig (host ?L) devEnv =
      Inr (devConfig, NewDefaultClientConfig ''/home/dev/.kube/config'' \<lparr>Namespace = []\<rparr>)"
    by (rule dev_init [where L = ?L]) (simp_all add: host_fields)
  have dc: "NewDiscoveryClientForConfig (host ?L) devConfig = Inr devConfig"
    and listing: "ServerPreferredResources (host ?L) devConfig = Inr ?L"
    by (simp_all add: host_fields)
  have bindings: "\<forall>l\<in>set ?L. \<forall>r\<in>set (APIResources l).
      resName r = ''bindings'' \<longrightarrow> Verbs r = [] \<or> ''list'' \<notin> set (Verbs r)"
    and podtemplates: "\<forall>l\<in>set ?L. \<forall>r\<in>set (APIResources l).
      resName r = ''podtemplates'' \<longrightarrow> Verbs r = [] \<or> ''list'' \<notin> set (Verbs r)"
    by (simp_all add: coreV1_def)
  have same: "(\<lambda>dc. case ServerPreferredResources (host ?L) dc of
                   Inl err \<Rightarrow> Inl err
                 | Inr listing \<Rightarrow> Inr (map listableOnly listing)) =
      (\<lambda>dc. Inr (map listableOnly ?L))"
    by (simp add: host_fields)
  from unlistable_resources_never_appear [of "host ?L" devEnv "''false''" "''bindings''"]
  have "GetSupportedService
     ((host ?L)\<lparr>ServerPreferredResources := (\<lambda>dc. Inr (map listableOnly ?L))\<rparr>)
     devEnv ''false'' = GetSupportedService (host ?L) devEnv ''false''"
    unfolding same by (rule conjunct1)
  moreover
  from unlistable_resources_never_appear [of "host ?L" devEnv "''false''" "''bindings''",
      THEN conjunct2, THEN spec, THEN spec, THEN spec, THEN spec,
      THEN mp, OF init, THEN mp, OF dc, THEN mp, OF listing, THEN mp, OF bindings]
  have "fst (GetSupportedService (host ?L) devEnv ''false'') ''bindings'' = None" .
  moreover
  from unlistable_resources_never_appear [of "host ?L" devEnv "''false''" "''podtemplates''",
      THEN conjunct2, THEN spec, THEN spec, THEN spec, THEN spec,
      THEN mp, OF init, THEN mp, OF dc, THEN mp, OF listing, THEN mp, OF podtemplates]
  have "fst (GetSupportedService (host ?L) devEnv ''false'') ''podtemplates'' = None" .
  ultimately show ?thesis by (intro conjI)
qed

section \<open>A failure of the configuration, seen from the catalog\<close>

text \<open>
  Claim C9, as stated, fails. With no variable set the sample host has no kubeconfig at
  the resolved path and \<open>initClientAndConfig\<close> fails with \<open>ConfigurationInvalid\<close>;
  \<open>GetSupportedService\<close> answers with the empty catalog and an empty log, for a cluster
  whose pods are in the catalog as soon as the configuration resolves.
\<close>

theorem configuration_failure_counterexample:
  "initClientAndConfig (host [coreV1]) (environ []) =
     Inl (ConfigurationInvalid ''.kube/config'' ''no such file or directory'')
   \<and> GetSupportedService (host [coreV1]) (environ []) ''false'' = (Map.empty, [])
   \<and> fst (GetSupportedService (host [coreV1]) devEnv ''false'') ''pods'' =
       Some \<lparr>Group = [], Version = ''v1'', Name = ''Pod'', Namespaced = True\<rparr>"
proof (intro conjI)
  show "initClientAndConfig (host [coreV1]) (environ []) =
      Inl (ConfigurationInvalid ''.kube/config'' ''no such file or directory'')"
    by (rule host_no_variable)
  then show "GetSupportedService (host [coreV1]) (environ []) ''false'' = (Map.empty, [])"
    by (simp add: GetSupportedService_def)
  show "fst (GetSupportedService (host [coreV1]) devEnv ''false'') ''pods'' =
      Some \<lparr>Group = [], Version = ''v1'', Name = ''Pod'', Namespaced = True\<rparr>"
    by (simp add: dev_catalog entries_coreV1 del: entries.simps)
qed

lemma host_credentials_rejected:
  "initClientAndConfig ((host L)\<lparr>ClientConfig := (\<lambda>config. Inl ''no credentials'')\<rparr>) devEnv =
     Inl (CredentialsRejected ''/home/dev/.kube/config'' ''no credentials'')"
  by (simp add: initClientAndConfig_def kubeconfigLocation_chain configFromPath_def
      devEnv_def environ_def host_fields home_default)

lemma host_bad_timeout:
  "initClientAndConfig (host L)
     (environ [(''HOME'', ''/home/dev''),
               (''KUBECTL_PLUGINS_GLOBAL_FLAG_REQUEST_TIMEOUT'', ''notaduration'')]) =
     Inl (InvalidOverride (''time: invalid duration '' @ quoted ''notaduration''))"
  by (simp add: initClientAndConfig_def kubeconfigLocation_chain configFromPath_def
      applyGlobalOptionsToConfig_def impersonationOptions_def tlsOptions_def requestOptions_def
      environ_def host_fields home_default)

text \<open>
  Claim C9, amended. \<open>initClientAndConfig\<close> returns each of its failures to its caller,
  as an error and no configuration. \<open>GetSupportedService\<close>, its caller in this file,
  does not pass the failure on: whatever the error is, it returns the empty catalog, and
  writes nothing to the log.
\<close>

theorem configuration_failure_gives_empty_catalog:
  "initClientAndConfig X Getenv = Inl err \<Longrightarrow>
   GetSupportedService X Getenv verbose = (Map.empty, [])"
  by (simp add: GetSupportedService_def)

theorem configuration_failure_gives_empty_catalog_witness:
  "GetSupportedService (host [coreV1]) (environ []) ''false'' = (Map.empty, [])
   \<and> GetSupportedService ((host [coreV1])\<lparr>ClientConfig := (\<lambda>config. Inl ''no credentials'')\<rparr>)
       devEnv ''false'' = (Map.empty, [])
   \<and> GetSupportedService (host [coreV1])
       (environ [(''HOME'', ''/home/dev''),
                 (''KUBECTL_PLUGINS_GLOBAL_FLAG_REQUEST_TIMEOUT'', ''notaduration'')]) ''false'' =
       (Map.empty, [])"
  using configuration_failure_gives_empty_catalog [OF host_no_variable, of "[coreV1]" "''false''"]
    configuration_failure_gives_empty_catalog [OF host_credentials_rejected, of "[coreV1]" "''false''"]
    configuration_failure_gives_empty_catalog [OF host_bad_timeout, of "[coreV1]" "''false''"]
  by (intro conjI)


end
